theory Spec2Isabelle
  imports Main "HOL-Library.AList"
begin

section \<open>SHA Connect: values, exceptions and tables\<close>

text \<open>
  The program keeps five pandas tables in the Streamlit session, persists each of them
  to a JSON file, translates short phrases, sends SMS and voice calls through Twilio and
  retries failed sends from an outbox.  Python exceptions are values of type \<open>exn\<close>;
  a function that can raise returns \<open>exn + 'a\<close> with \<open>Inl\<close> for the exception.
\<close>

datatype exn = KeyError string | ValueError string | Exception string

text \<open>\<open>str(e)\<close>: a \<open>KeyError\<close> prints the repr of its key, the others their message.\<close>

fun str_exn :: "exn \<Rightarrow> string" where
  "str_exn (KeyError k) = [CHR 0x27] @ k @ [CHR 0x27]"
| "str_exn (ValueError m) = m"
| "str_exn (Exception m) = m"

text \<open>
  A cell of a table: a Python string, a Python integer, or the missing value that pandas
  puts where a row has no value for a column.  Floating point cells are not modelled.
\<close>

datatype cell = Str string | Num int | NaN

text \<open>
  A row (a pandas Series, or one JSON record) lists its cells by column name.  A table
  has the ordered column labels and the rows, each with its index label.
\<close>

type_synonym row = "(string \<times> cell) list"

record frame =
  columns :: "string list"
  rows :: "(nat \<times> row) list"

text \<open>\<open>row.get(c, default)\<close> and \<open>row[c]\<close>.\<close>

definition row_get :: "row \<Rightarrow> string \<Rightarrow> cell \<Rightarrow> cell" where
  "row_get r c d = (case map_of r c of Some v \<Rightarrow> v | None \<Rightarrow> d)"

definition row_item :: "row \<Rightarrow> string \<Rightarrow> exn + cell" where
  "row_item r c = (case map_of r c of Some v \<Rightarrow> Inr v | None \<Rightarrow> Inl (KeyError c))"

text \<open>A row laid out on the column labels \<open>cs\<close>; a column it lacks reads as missing.\<close>

definition reindex :: "string list \<Rightarrow> row \<Rightarrow> row" where
  "reindex cs r = map (\<lambda>c. (c, row_get r c NaN)) cs"

text \<open>\<open>pd.DataFrame(columns=cs)\<close>; \<open>pd.DataFrame()\<close> is \<open>DataFrame []\<close>.\<close>

definition DataFrame :: "string list \<Rightarrow> frame" where
  "DataFrame cs = \<lparr>columns = cs, rows = []\<rparr>"

text \<open>\<open>df.empty\<close>: one of the two axes has length 0.\<close>

definition empty_df :: "frame \<Rightarrow> bool" where
  "empty_df df = (columns df = [] \<or> rows df = [])"

text \<open>The labels of a list of records, each once, in order of first appearance.\<close>

fun first_seen :: "string list \<Rightarrow> string list \<Rightarrow> string list" where
  "first_seen acc [] = acc"
| "first_seen acc (c # cs) = first_seen (if c \<in> set acc then acc else acc @ [c]) cs"

text \<open>\<open>pd.DataFrame(records)\<close> for a list of flat records; the index is 0, 1, ...\<close>

definition DataFrame_records :: "row list \<Rightarrow> frame" where
  "DataFrame_records recs =
     (let cs = first_seen [] (concat (map (map fst) recs))
      in \<lparr>columns = cs, rows = enumerate 0 (map (reindex cs) recs)\<rparr>)"

text \<open>\<open>df.to_dict(orient="records")\<close>.\<close>

definition to_dict_records :: "frame \<Rightarrow> row list" where
  "to_dict_records df = map snd (rows df)"

text \<open>\<open>df[c] = v\<close> for a scalar \<open>v\<close>: overwrite the column, or add it as the last one.\<close>

definition setitem :: "frame \<Rightarrow> string \<Rightarrow> cell \<Rightarrow> frame" where
  "setitem df c v =
     \<lparr>columns = (if c \<in> set (columns df) then columns df else columns df @ [c]),
      rows = map (\<lambda>(i, r). (i, AList.update c v r)) (rows df)\<rparr>"

text \<open>\<open>df[cs]\<close> for a list of labels: \<open>KeyError\<close> when a label is not a column.\<close>

definition getitem :: "frame \<Rightarrow> string list \<Rightarrow> exn + frame" where
  "getitem df cs =
     (case filter (\<lambda>c. c \<notin> set (columns df)) cs of
        [] \<Rightarrow> Inr \<lparr>columns = cs, rows = map (\<lambda>(i, r). (i, reindex cs r)) (rows df)\<rparr>
      | c # _ \<Rightarrow> Inl (KeyError c))"

text \<open>
  \<open>pd.concat([df1, df2], ignore_index=True)\<close>: the columns of \<open>df1\<close>, then the new
  ones of \<open>df2\<close>; all rows in order, relabelled 0, 1, ...
\<close>

definition concat_ignore_index :: "frame \<Rightarrow> frame \<Rightarrow> frame" where
  "concat_ignore_index df1 df2 =
     (let cs = columns df1 @ filter (\<lambda>c. c \<notin> set (columns df1)) (columns df2)
      in \<lparr>columns = cs,
          rows = enumerate 0 (map (\<lambda>(i, r). reindex cs r) (rows df1 @ rows df2))\<rparr>)"

text \<open>
  \<open>df.at[idx, c] = v\<close>: the cell of the row labelled \<open>idx\<close>; a new column is filled with
  the missing value in the other rows, and an unknown label adds a row.
\<close>

definition at_set :: "frame \<Rightarrow> nat \<Rightarrow> string \<Rightarrow> cell \<Rightarrow> frame" where
  "at_set df idx c v =
     (let cs = (if c \<in> set (columns df) then columns df else columns df @ [c]);
          fill = (\<lambda>r. if c \<in> set (columns df) then r else r @ [(c, NaN)]);
          rs = map (\<lambda>(i, r). (i, if i = idx then AList.update c v r else fill r)) (rows df)
      in \<lparr>columns = cs,
          rows = (if idx \<in> fst ` set (rows df) then rs
                  else rs @ [(idx, AList.update c v (reindex cs []))])\<rparr>)"

text \<open>\<open>df.drop(idx)\<close>: \<open>KeyError\<close> when no row has the label.\<close>

definition drop_label :: "frame \<Rightarrow> nat \<Rightarrow> exn + frame" where
  "drop_label df idx =
     (if idx \<in> fst ` set (rows df)
      then Inr (df\<lparr>rows := filter (\<lambda>(i, r). i \<noteq> idx) (rows df)\<rparr>)
      else Inl (KeyError ''index''))"

section \<open>Translation\<close>

text \<open>
  \<open>gt\<close> is \<open>gt_translator\<close>: \<open>None\<close> when googletrans could not be imported, otherwise
  the result of \<open>translate(text, dest).text\<close>, which may raise.
\<close>

type_synonym translator = "(string \<Rightarrow> string \<Rightarrow> exn + string) option"

definition custom_translations :: "string \<rightharpoonup> (string \<rightharpoonup> string)" where
  "custom_translations = map_of
     [(''Luo'', map_of
        [(''What is SHA?'',
          ''SHA en Social Health Authority, ma orit gi dhok yi mondo giko gi bedo mag dhok.''),
         (''How can I register for SHA?'',
          ''Inyalo registr kendo e health center maduong' gi e SHA portal.''),
         (''Which services are covered?'',
          ''SHA en giko mag preventive care, maternal care, kod treatments ma nyaka.''),
         (''Thank you for your feedback!'', ''Awuoyo gi nyalo walo!'')]),
      (''Luhya'', map_of
        [(''What is SHA?'', ''SHA ni Social Health Authority, ebuya amagara netaweire.''),
         (''How can I register for SHA?'', ''Olwikhilire kuhealth center oba e SHA portal.''),
         (''Which services are covered?'',
          ''SHA ibuyire preventive care, maternal care, ne essential treatments.''),
         (''Thank you for your feedback!'', ''Webale muno okhu'')])]"

text \<open>\<open>d.get(k, default)\<close> on a dictionary.\<close>

definition dict_get :: "('k \<rightharpoonup> 'v) \<Rightarrow> 'k \<Rightarrow> 'v \<Rightarrow> 'v" where
  "dict_get d k dflt = (case d k of Some v \<Rightarrow> v | None \<Rightarrow> dflt)"

definition safe_translate :: "translator \<Rightarrow> string \<Rightarrow> string \<Rightarrow> exn + string" where
  "safe_translate gt text lang =
     (if text = [] then Inr text
      else if lang \<in> {''Luo'', ''Luhya''} then
        Inr (dict_get (dict_get custom_translations lang Map.empty) text text)
      else if lang = ''English'' then Inr text
      else if lang = ''Swahili'' then
        (case gt of
           Some translate \<Rightarrow>
             (case translate text ''sw'' of Inr t \<Rightarrow> Inr t | Inl e \<Rightarrow> Inr text)
         | None \<Rightarrow> Inr text)
      else Inr text)"

section \<open>JSON persistence\<close>

text \<open>
  The JSON writers and readers belong to pandas and to the \<open>json\<close> module, so they are
  parameters.  \<open>'c\<close> is what a file holds.  A writer either writes the whole content or
  raises, and may then leave some other content in the file.
\<close>

datatype 'c written = Wrote 'c | Failed exn "'c option"

record 'c json_lib =
  to_json :: "frame \<Rightarrow> string \<Rightarrow> 'c written"
  json_dump :: "row list \<Rightarrow> string \<Rightarrow> 'c written"
  read_json :: "'c \<Rightarrow> exn + frame"
  json_load_DataFrame :: "'c \<Rightarrow> exn + frame"

text \<open>
  \<open>to_json L df path\<close> is \<open>df.to_json(path, orient="records", ...)\<close>,
  \<open>json_dump L records path\<close> is \<open>open(path, "w")\<close> followed by \<open>json.dump\<close>,
  \<open>read_json L c\<close> is \<open>pd.read_json(path, orient="records")\<close> on a file that holds \<open>c\<close>,
  and \<open>json_load_DataFrame L c\<close> is \<open>json.load\<close> followed by \<open>pd.DataFrame(records)\<close>.
\<close>

type_synonym 'c files = "string \<rightharpoonup> 'c"

definition left_in_file :: "'c files \<Rightarrow> string \<Rightarrow> 'c option \<Rightarrow> 'c files" where
  "left_in_file fs path left = (case left of Some c \<Rightarrow> fs(path \<mapsto> c) | None \<Rightarrow> fs)"

definition save_df_to_file ::
  "'c json_lib \<Rightarrow> frame \<Rightarrow> string \<Rightarrow> 'c files \<Rightarrow> (exn + unit) \<times> 'c files" where
  "save_df_to_file L df path fs =
     (case to_json L df path of
        Wrote c \<Rightarrow> (Inr (), fs(path \<mapsto> c))
      | Failed e left \<Rightarrow>
          (let fs1 = left_in_file fs path left
           in case json_dump L (to_dict_records df) path of
                Wrote c \<Rightarrow> (Inr (), fs1(path \<mapsto> c))
              | Failed e2 left2 \<Rightarrow> (Inl e2, left_in_file fs1 path left2)))"

text \<open>The loop \<open>for c in columns: if c not in df.columns: df[c] = ""\<close>.\<close>

fun backfill :: "frame \<Rightarrow> string list \<Rightarrow> frame" where
  "backfill df [] = df"
| "backfill df (c # cs) =
     backfill (if c \<notin> set (columns df) then setitem df c (Str []) else df) cs"

text \<open>
  What both \<open>try\<close> blocks of \<open>load_df_from_file\<close> do with the parsed table.  The
  argument \<open>columns\<close> is a list; \<open>[]\<close> also stands for the default \<open>None\<close>, since the
  source only tests \<open>if columns\<close>.
\<close>

definition ensure_columns :: "frame \<Rightarrow> string list \<Rightarrow> exn + frame" where
  "ensure_columns df cols =
     (if cols \<noteq> [] then getitem (backfill df cols) cols else Inr df)"

definition load_df_from_file ::
  "'c json_lib \<Rightarrow> 'c files \<Rightarrow> string \<Rightarrow> string list \<Rightarrow> exn + frame" where
  "load_df_from_file L fs path cols =
     (case fs path of
        None \<Rightarrow> (if cols \<noteq> [] then Inr (DataFrame cols) else Inr (DataFrame []))
      | Some c \<Rightarrow>
          (case (case read_json L c of Inl e \<Rightarrow> Inl e | Inr df \<Rightarrow> ensure_columns df cols) of
             Inr df \<Rightarrow> Inr df
           | Inl e \<Rightarrow>
               (case (case json_load_DataFrame L c of
                        Inl e \<Rightarrow> Inl e | Inr df \<Rightarrow> ensure_columns df cols) of
                  Inr df \<Rightarrow> Inr df
                | Inl e2 \<Rightarrow> Inr (DataFrame []))))"

section \<open>Twilio\<close>

text \<open>
  The environment of the program: the Streamlit secrets, the process environment, the
  Twilio library (\<open>None\<close> when its import failed; the constructor may raise), the
  behaviour of the Twilio service, whether the \<open>openai\<close> library was imported,
  googletrans, and the clock.  The service answers a
  request given the requests made before it: with the created resource, whose \<open>sid\<close>
  attribute may be absent, or with an exception.

  \<open>st.secrets\<close> is read from a secrets file.  When there is none, every use of
  \<open>st.secrets\<close>, the test \<open>"twilio" in st.secrets\<close> included, raises: \<open>secrets\<close> is
  then \<open>Inl\<close> of that exception.  \<open>missing_secret k\<close> is the exception that
  \<open>st.secrets[...][k]\<close> raises for a key that is not there.
\<close>

datatype request =
    messages_create cell "string option" cell
  | calls_create string "string option" cell

datatype response = Resource "string option" | Raises exn

datatype client = Client "string option" "string option"

record env =
  secrets :: "exn + (string \<rightharpoonup> (string \<rightharpoonup> string))"
  missing_secret :: "string \<Rightarrow> exn"
  environ :: "string \<rightharpoonup> string"
  TwilioClient :: "(string option \<Rightarrow> string option \<Rightarrow> exn + client) option"
  provider :: "request list \<Rightarrow> request \<Rightarrow> response"
  openai :: bool
  gt_translator :: translator
  clock :: "nat \<Rightarrow> string"

text \<open>The truth value of \<open>os.getenv(k)\<close>: set and not the empty string.\<close>

definition truthy :: "string option \<Rightarrow> bool" where
  "truthy v = (case v of None \<Rightarrow> False | Some s \<Rightarrow> s \<noteq> [])"

text \<open>
  \<open>twilio_configured()\<close> has no \<open>try\<close>: the exception of the first use of
  \<open>st.secrets\<close> leaves it.
\<close>

definition twilio_configured :: "env \<Rightarrow> exn + bool" where
  "twilio_configured E =
     (case secrets E of
        Inl e \<Rightarrow> Inl e
      | Inr sec \<Rightarrow>
          (let has_secrets =
                 (case sec ''twilio'' of
                    None \<Rightarrow> False
                  | Some tw \<Rightarrow> tw ''account_sid'' \<noteq> None \<and> tw ''auth_token'' \<noteq> None \<and>
                               tw ''from_number'' \<noteq> None)
           in if has_secrets then Inr True
              else Inr (truthy (environ E ''TWILIO_ACCOUNT_SID'') \<and>
                        truthy (environ E ''TWILIO_AUTH_TOKEN'') \<and>
                        truthy (environ E ''TWILIO_PHONE_NUMBER''))))"

text \<open>\<open>st.secrets["twilio"][k]\<close> once \<open>"twilio" in st.secrets\<close>.\<close>

definition secret_item :: "env \<Rightarrow> (string \<rightharpoonup> string) \<Rightarrow> string \<Rightarrow> exn + string" where
  "secret_item E tw k = (case tw k of Some v \<Rightarrow> Inr v | None \<Rightarrow> Inl (missing_secret E k))"

text \<open>
  \<open>get_twilio_client()\<close> calls \<open>twilio_configured()\<close> before its \<open>try\<close>; every
  exception inside the \<open>try\<close> gives \<open>None\<close>.
\<close>

definition get_twilio_client :: "env \<Rightarrow> exn + client option" where
  "get_twilio_client E =
     (case twilio_configured E of
        Inl e \<Rightarrow> Inl e
      | Inr configured \<Rightarrow>
          if \<not> configured then Inr None
          else
            (case (case secrets E of
                     Inl e \<Rightarrow> Inl e
                   | Inr sec \<Rightarrow>
                       (case sec ''twilio'' of
                          Some tw \<Rightarrow>
                            (case secret_item E tw ''account_sid'' of
                               Inl e \<Rightarrow> Inl e
                             | Inr sid \<Rightarrow>
                                 (case secret_item E tw ''auth_token'' of
                                    Inl e \<Rightarrow> Inl e
                                  | Inr token \<Rightarrow> Inr (Some sid, Some token)))
                        | None \<Rightarrow>
                            Inr (environ E ''TWILIO_ACCOUNT_SID'',
                                 environ E ''TWILIO_AUTH_TOKEN''))) of
               Inl e \<Rightarrow> Inr None
             | Inr (sid, token) \<Rightarrow>
                 (case TwilioClient E of
                    None \<Rightarrow> Inr None
                  | Some new \<Rightarrow>
                      (case new sid token of Inl e \<Rightarrow> Inr None | Inr c \<Rightarrow> Inr (Some c)))))"

text \<open>
  \<open>st.secrets["twilio"]["from_number"] if "twilio" in st.secrets else
  os.getenv("TWILIO_PHONE_NUMBER")\<close>.
\<close>

definition from_number :: "env \<Rightarrow> exn + string option" where
  "from_number E =
     (case secrets E of
        Inl e \<Rightarrow> Inl e
      | Inr sec \<Rightarrow>
          (case sec ''twilio'' of
             Some tw \<Rightarrow>
               (case secret_item E tw ''from_number'' of Inl e \<Rightarrow> Inl e | Inr v \<Rightarrow> Inr (Some v))
           | None \<Rightarrow> Inr (environ E ''TWILIO_PHONE_NUMBER'')))"

text \<open>\<open>openai_configured()\<close>, which has no \<open>try\<close> either.\<close>

definition openai_configured :: "env \<Rightarrow> exn + bool" where
  "openai_configured E =
     (case secrets E of
        Inl e \<Rightarrow> Inl e
      | Inr sec \<Rightarrow>
          Inr ((case sec ''openai'' of None \<Rightarrow> False | Some oa \<Rightarrow> oa ''api_key'' \<noteq> None) \<or>
               truthy (environ E ''OPENAI_API_KEY'')))"

text \<open>\<open>getattr(obj, "sid", d)\<close> on the created resource.\<close>

definition getattr_sid :: "string option \<Rightarrow> string \<Rightarrow> string" where
  "getattr_sid sid d = (case sid of Some v \<Rightarrow> v | None \<Rightarrow> d)"

text \<open>\<open>str(v)\<close> of a cell, as an f-string formats it.\<close>

fun str_nat :: "nat \<Rightarrow> string" where
  "str_nat n =
     (if n < 10 then [''0123456789'' ! n]
      else str_nat (n div 10) @ [''0123456789'' ! (n mod 10)])"

definition str_int :: "int \<Rightarrow> string" where
  "str_int i = (if i < 0 then CHR ''-'' # str_nat (nat (- i)) else str_nat (nat i))"

fun py_str :: "cell \<Rightarrow> string" where
  "py_str (Str s) = s"
| "py_str (Num i) = str_int i"
| "py_str NaN = ''nan''"

text \<open>
  The two senders take the log of the requests made so far and return it with the new
  request added when the service was called.  They call \<open>get_twilio_client()\<close> before
  their \<open>try\<close>, so its exception leaves them.
\<close>

definition safe_send_sms ::
  "env \<Rightarrow> cell \<Rightarrow> cell \<Rightarrow> request list \<Rightarrow> (exn + bool \<times> string) \<times> request list" where
  "safe_send_sms E to_number body reqs =
     (case get_twilio_client E of
        Inl e \<Rightarrow> (Inl e, reqs)
      | Inr None \<Rightarrow> (Inr (False, ''Twilio not configured or library missing.''), reqs)
      | Inr (Some client) \<Rightarrow>
          (case from_number E of
             Inl e \<Rightarrow> (Inr (False, str_exn e), reqs)
           | Inr from \<Rightarrow>
               (let req = messages_create body from to_number
                in case provider E reqs req of
                     Raises e \<Rightarrow> (Inr (False, str_exn e), reqs @ [req])
                   | Resource sid \<Rightarrow> (Inr (True, getattr_sid sid ''sent''), reqs @ [req]))))"

definition safe_make_call ::
  "env \<Rightarrow> cell \<Rightarrow> cell \<Rightarrow> request list \<Rightarrow> (exn + bool \<times> string) \<times> request list" where
  "safe_make_call E to_number text_to_say reqs =
     (case get_twilio_client E of
        Inl e \<Rightarrow> (Inl e, reqs)
      | Inr None \<Rightarrow> (Inr (False, ''Twilio not configured or library missing.''), reqs)
      | Inr (Some client) \<Rightarrow>
          (case from_number E of
             Inl e \<Rightarrow> (Inr (False, str_exn e), reqs)
           | Inr from \<Rightarrow>
               (let req = calls_create
                            (''<Response><Say>'' @ py_str text_to_say @ ''</Say></Response>'')
                            from to_number
                in case provider E reqs req of
                     Raises e \<Rightarrow> (Inr (False, str_exn e), reqs @ [req])
                   | Resource sid \<Rightarrow>
                       (Inr (True, getattr_sid sid ''call-initiated''), reqs @ [req]))))"

section \<open>Session state and the outbox\<close>

text \<open>
  The state of one user session: the five tables of \<open>st.session_state\<close>, the files
  under \<open>./data\<close>, the requests made to Twilio so far, and how often the clock was read.
\<close>

record 'c state =
  partners_df :: frame
  message_logs :: frame
  feedback_df :: frame
  reminders_df :: frame
  outbox_df :: frame
  files :: "'c files"
  requests :: "request list"
  ticks :: nat

definition PARTNERS_FILE :: string where "PARTNERS_FILE = ''./data/partners.json''"
definition MESSAGES_FILE :: string where "MESSAGES_FILE = ''./data/message_logs.json''"
definition FEEDBACK_FILE :: string where "FEEDBACK_FILE = ''./data/feedback.json''"
definition REMINDERS_FILE :: string where "REMINDERS_FILE = ''./data/reminders.json''"
definition OUTBOX_FILE :: string where "OUTBOX_FILE = ''./data/outbox.json''"

text \<open>\<open>datetime.datetime.now().strftime(...)\<close>: the next reading of the clock.\<close>

definition now :: "env \<Rightarrow> 'c state \<Rightarrow> string \<times> 'c state" where
  "now E s = (clock E (ticks s), s\<lparr>ticks := Suc (ticks s)\<rparr>)"

text \<open>\<open>save_df_to_file(df, path)\<close> on the files of the state.\<close>

definition save_table :: "'c json_lib \<Rightarrow> frame \<Rightarrow> string \<Rightarrow> 'c state \<Rightarrow> (exn + unit) \<times> 'c state" where
  "save_table L df path s =
     (case save_df_to_file L df path (files s) of (r, fs) \<Rightarrow> (r, s\<lparr>files := fs\<rparr>))"

text \<open>
  \<open>int(v)\<close> of a cell.  A string must be an optional sign and decimal digits; the
  surrounding blanks and the underscores that Python also accepts are not modelled.
\<close>

definition digit_val :: "char \<Rightarrow> nat option" where
  "digit_val ch = (if ch \<in> set ''0123456789'' then Some (of_char ch - 48) else None)"

fun parse_nat :: "string \<Rightarrow> nat \<Rightarrow> nat option" where
  "parse_nat [] acc = Some acc"
| "parse_nat (ch # cs) acc =
     (case digit_val ch of None \<Rightarrow> None | Some d \<Rightarrow> parse_nat cs (10 * acc + d))"

definition int_of_str :: "string \<Rightarrow> exn + int" where
  "int_of_str s =
     (let neg = (s \<noteq> [] \<and> hd s = CHR ''-'');
          ds = (if s \<noteq> [] \<and> (hd s = CHR ''-'' \<or> hd s = CHR ''+'') then tl s else s)
      in if ds = [] then Inl (ValueError s)
         else (case parse_nat ds 0 of
                 None \<Rightarrow> Inl (ValueError s)
               | Some n \<Rightarrow> Inr (if neg then - int n else int n)))"

fun py_int :: "cell \<Rightarrow> exn + int" where
  "py_int (Num i) = Inr i"
| "py_int (Str s) = int_of_str s"
| "py_int NaN = Inl (ValueError ''cannot convert float NaN to integer'')"

definition add_to_outbox ::
  "env \<Rightarrow> 'c json_lib \<Rightarrow> string \<Rightarrow> string \<Rightarrow> string \<Rightarrow> string \<Rightarrow> 'c state
     \<Rightarrow> (exn + unit) \<times> 'c state" where
  "add_to_outbox E L recipient message language msg_type s =
     (case now E s of
        (date, s1) \<Rightarrow>
          (let row = [(''Recipient'', Str recipient),
                      (''Message'', Str message),
                      (''Language'', Str language),
                      (''Date Created'', Str date),
                      (''Type'', Str msg_type),
                      (''Attempts'', Num 0)];
               s2 = s1\<lparr>outbox_df :=
                         concat_ignore_index (outbox_df s1) (DataFrame_records [row])\<rparr>
           in save_table L (outbox_df s2) OUTBOX_FILE s2))"

type_synonym result = "nat \<times> bool \<times> string"

text \<open>
  The body of the loop of \<open>process_outbox\<close> for the row \<open>(idx, row)\<close> of the copy: it
  appends one result, or raises.
\<close>

definition process_row ::
  "env \<Rightarrow> int \<Rightarrow> nat \<times> row \<Rightarrow> 'c state \<Rightarrow> (exn + result) \<times> 'c state" where
  "process_row E max_attempts ir s =
     (case ir of (idx, row) \<Rightarrow>
      (case py_int (row_get row ''Attempts'' (Num 0)) of
         Inl e \<Rightarrow> (Inl e, s)
       | Inr attempts \<Rightarrow>
           if attempts \<ge> max_attempts then (Inr (idx, False, ''max attempts reached''), s)
           else
             (case row_item row ''Recipient'' of
                Inl e \<Rightarrow> (Inl e, s)
              | Inr recipient \<Rightarrow>
             (case row_item row ''Message'' of
                Inl e \<Rightarrow> (Inl e, s)
              | Inr message \<Rightarrow>
                  (let msg_type = row_get row ''Type'' (Str ''sms'');
                       language = row_get row ''Language'' (Str ''English'')
                   in case (if msg_type = Str ''sms''
                            then safe_send_sms E recipient message (requests s)
                            else safe_make_call E recipient message (requests s)) of
                        (Inl e, reqs) \<Rightarrow> (Inl e, s\<lparr>requests := reqs\<rparr>)
                      | (Inr (ok, info), reqs) \<Rightarrow>
                          (let s1 = s\<lparr>requests := reqs\<rparr>;
                               s2 = s1\<lparr>outbox_df :=
                                     at_set (outbox_df s1) idx ''Attempts'' (Num (attempts + 1))\<rparr>
                           in if ok then
                                (case now E s2 of
                                   (date, s3) \<Rightarrow>
                                     (let sent_row = [(''Recipient'', recipient),
                                                      (''Message'', message),
                                                      (''Language'', language),
                                                      (''Date Sent'', Str date),
                                                      (''Type'', msg_type),
                                                      (''Status'', Str ''Sent'')];
                                          s4 = s3\<lparr>message_logs :=
                                                 concat_ignore_index (message_logs s3)
                                                   (DataFrame_records [sent_row])\<rparr>
                                      in case drop_label (outbox_df s4) idx of
                                           Inl e \<Rightarrow> (Inl e, s4)
                                         | Inr df \<Rightarrow>
                                             (Inr (idx, True, info), s4\<lparr>outbox_df := df\<rparr>)))
                              else (Inr (idx, False, info), s2)))))))"

fun outbox_loop ::
  "env \<Rightarrow> int \<Rightarrow> (nat \<times> row) list \<Rightarrow> result list \<Rightarrow> 'c state
     \<Rightarrow> (exn + result list) \<times> 'c state" where
  "outbox_loop E max_attempts [] results s = (Inr results, s)"
| "outbox_loop E max_attempts (ir # rest) results s =
     (case process_row E max_attempts ir s of
        (Inl e, s1) \<Rightarrow> (Inl e, s1)
      | (Inr r, s1) \<Rightarrow> outbox_loop E max_attempts rest (results @ [r]) s1)"

text \<open>
  \<open>process_outbox(max_attempts)\<close>: the loop runs over the rows of a copy taken at the
  start, then both tables are saved.
\<close>

definition process_outbox ::
  "env \<Rightarrow> 'c json_lib \<Rightarrow> int \<Rightarrow> 'c state \<Rightarrow> (exn + result list) \<times> 'c state" where
  "process_outbox E L max_attempts s =
     (if empty_df (outbox_df s) then (Inr [], s)
      else
        (case outbox_loop E max_attempts (rows (outbox_df s)) [] s of
           (Inl e, s1) \<Rightarrow> (Inl e, s1)
         | (Inr results, s1) \<Rightarrow>
             (case save_table L (outbox_df s1) OUTBOX_FILE s1 of
                (Inl e, s2) \<Rightarrow> (Inl e, s2)
              | (Inr u, s2) \<Rightarrow>
                  (case save_table L (message_logs s2) MESSAGES_FILE s2 of
                     (Inl e, s3) \<Rightarrow> (Inl e, s3)
                   | (Inr u, s3) \<Rightarrow> (Inr results, s3)))))"

definition persist_all :: "'c json_lib \<Rightarrow> 'c state \<Rightarrow> (exn + unit) \<times> 'c state" where
  "persist_all L s =
     (case save_table L (partners_df s) PARTNERS_FILE s of
        (Inl e, s1) \<Rightarrow> (Inl e, s1)
      | (Inr u, s1) \<Rightarrow>
     (case save_table L (message_logs s1) MESSAGES_FILE s1 of
        (Inl e, s2) \<Rightarrow> (Inl e, s2)
      | (Inr u, s2) \<Rightarrow>
     (case save_table L (feedback_df s2) FEEDBACK_FILE s2 of
        (Inl e, s3) \<Rightarrow> (Inl e, s3)
      | (Inr u, s3) \<Rightarrow>
     (case save_table L (reminders_df s3) REMINDERS_FILE s3 of
        (Inl e, s4) \<Rightarrow> (Inl e, s4)
      | (Inr u, s4) \<Rightarrow> save_table L (outbox_df s4) OUTBOX_FILE s4))))"

section \<open>An example environment\<close>

text \<open>
  A secrets file with the content \<open>sec\<close>, a library whose constructor succeeds, and a
  service that behaves as \<open>p\<close>; neither \<open>openai\<close> nor googletrans; a clock that shows
  successive seconds.
\<close>

definition example_secrets :: "string \<rightharpoonup> (string \<rightharpoonup> string)" where
  "example_secrets =
     [''twilio'' \<mapsto> [''account_sid'' \<mapsto> ''AC1'', ''auth_token'' \<mapsto> ''tok'',
                     ''from_number'' \<mapsto> ''+15550100'']]"

definition example_env ::
  "(string \<rightharpoonup> (string \<rightharpoonup> string)) \<Rightarrow> (request list \<Rightarrow> request \<Rightarrow> response) \<Rightarrow> env" where
  "example_env sec p =
     \<lparr>secrets = Inr sec,
      missing_secret = (\<lambda>k. KeyError (''st.secrets has no key '' @ k)),
      environ = Map.empty,
      TwilioClient = Some (\<lambda>sid token. Inr (Client sid token)),
      provider = p, openai = False, gt_translator = None,
      clock = (\<lambda>n. ''2024-01-01 10:00:0'' @ str_nat n)\<rparr>"

text \<open>
  The same without a secrets file: \<open>st.secrets\<close> raises.  The three Twilio variables
  of the process environment are \<open>vars\<close>.
\<close>

definition no_secrets_env :: "(string \<rightharpoonup> string) \<Rightarrow> env" where
  "no_secrets_env vars =
     (example_env Map.empty (\<lambda>reqs req. Resource (Some ''SM1'')))
       \<lparr>secrets := Inl (Exception ''No secrets found''), environ := vars\<rparr>"

section \<open>A JSON library that writes and reads records\<close>

text \<open>
  A file holds the list of records of a table, or text that is not JSON.  \<open>to_json\<close>
  writes the records of a table with unique column labels, \<open>json.dump\<close> writes any
  list of records, and both readers build the table of the records they find and raise
  on other text.

  \<open>pd.read_json\<close> then infers the type of each column, as it does by default: a
  column with at least one row in which every cell is an integer, or a string that
  reads as one, comes back as a column of integers.  The other numeric spellings that
  pandas converts, and the columns that it turns into floating point, are not modelled:
  such columns are left as they are.  \<open>json.load\<close> with \<open>pd.DataFrame\<close> infers
  nothing.
\<close>

datatype json_file = Json_records "row list" | Not_json string

definition integer_like :: "cell \<Rightarrow> bool" where
  "integer_like v = (case v of Num i \<Rightarrow> True | Str s \<Rightarrow> \<not> isl (int_of_str s) | NaN \<Rightarrow> False)"

definition as_integer :: "cell \<Rightarrow> cell" where
  "as_integer v =
     (case v of
        Str s \<Rightarrow> (case int_of_str s of Inr i \<Rightarrow> Num i | Inl e \<Rightarrow> v)
      | Num i \<Rightarrow> v
      | NaN \<Rightarrow> v)"

definition infer_column :: "string \<Rightarrow> frame \<Rightarrow> frame" where
  "infer_column c df =
     (if rows df \<noteq> [] \<and> list_all (\<lambda>(i, r). integer_like (row_get r c NaN)) (rows df)
      then df\<lparr>rows := map (\<lambda>(i, r). (i, AList.update c (as_integer (row_get r c NaN)) r))
                          (rows df)\<rparr>
      else df)"

definition infer_types :: "frame \<Rightarrow> frame" where
  "infer_types df = fold infer_column (columns df) df"

definition records_lib :: "json_file json_lib" where
  "records_lib =
     \<lparr>to_json = (\<lambda>df path.
                   if distinct (columns df) then Wrote (Json_records (to_dict_records df))
                   else Failed (ValueError ''DataFrame columns must be unique'') None),
      json_dump = (\<lambda>recs path. Wrote (Json_records recs)),
      read_json = (\<lambda>c. case c of
                          Json_records recs \<Rightarrow> Inr (infer_types (DataFrame_records recs))
                        | Not_json t \<Rightarrow> Inl (ValueError ''Expected object or value'')),
      json_load_DataFrame = (\<lambda>c. case c of
                          Json_records recs \<Rightarrow> Inr (DataFrame_records recs)
                        | Not_json t \<Rightarrow> Inl (ValueError ''Expecting value''))\<rparr>"

section \<open>The round trip through a file\<close>

text \<open>
  A table is well formed when its column labels are unique and every row has exactly
  these labels, in this order.
\<close>

definition wf_frame :: "frame \<Rightarrow> bool" where
  "wf_frame df = (distinct (columns df) \<and> list_all (\<lambda>(i, r). map fst r = columns df) (rows df))"

text \<open>\<open>df.reset_index(drop=True)\<close>: the same records, labelled 0, 1, ...\<close>

definition reset_index :: "frame \<Rightarrow> frame" where
  "reset_index df = \<lparr>columns = columns df, rows = enumerate 0 (to_dict_records df)\<rparr>"

text \<open>The content that a successful \<open>save_df_to_file\<close> leaves in the file.\<close>

definition written :: "'c json_lib \<Rightarrow> frame \<Rightarrow> string \<Rightarrow> 'c option" where
  "written L df path =
     (case to_json L df path of
        Wrote c \<Rightarrow> Some c
      | Failed e left \<Rightarrow>
          (case json_dump L (to_dict_records df) path of
             Wrote c \<Rightarrow> Some c
           | Failed e2 left2 \<Rightarrow> None))"

text \<open>
  The reader that \<open>load_df_from_file\<close> ends up using on the content \<open>c\<close> returns the
  table of the records \<open>recs\<close>.
\<close>

definition reads_back :: "'c json_lib \<Rightarrow> 'c \<Rightarrow> row list \<Rightarrow> bool" where
  "reads_back L c recs =
     (case read_json L c of
        Inr df \<Rightarrow> df = DataFrame_records recs
      | Inl e \<Rightarrow> json_load_DataFrame L c = Inr (DataFrame_records recs))"

text \<open>The library reads back the records that it wrote for the table \<open>df\<close>.\<close>

definition round_trips :: "'c json_lib \<Rightarrow> frame \<Rightarrow> string \<Rightarrow> bool" where
  "round_trips L df path =
     (case written L df path of
        Some c \<Rightarrow> reads_back L c (to_dict_records df)
      | None \<Rightarrow> False)"

text \<open>\<open>save_df_to_file(df, path)\<close>, then \<open>load_df_from_file(path, df.columns)\<close>.\<close>

definition save_then_load :: "'c json_lib \<Rightarrow> frame \<Rightarrow> string \<Rightarrow> 'c files \<Rightarrow> exn + frame" where
  "save_then_load L df path fs =
     (case save_df_to_file L df path fs of
        (Inl e, fs1) \<Rightarrow> Inl e
      | (Inr u, fs1) \<Rightarrow> load_df_from_file L fs1 path (columns df))"

section \<open>Stating the properties of the outbox\<close>

text \<open>The column lists that the program passes when it loads the two tables.\<close>

definition outbox_columns :: "string list" where
  "outbox_columns = [''Recipient'', ''Message'', ''Language'', ''Date Created'', ''Type'', ''Attempts'']"

definition log_columns :: "string list" where
  "log_columns = [''Recipient'', ''Message'', ''Language'', ''Date Sent'', ''Type'', ''Status'']"

text \<open>The attempt count that \<open>process_outbox\<close> reads from a row.\<close>

definition attempts_of :: "row \<Rightarrow> exn + int" where
  "attempts_of row = py_int (row_get row ''Attempts'' (Num 0))"

text \<open>
  The send that \<open>process_outbox\<close> makes for a row: an SMS when the type is "sms", a
  call otherwise.
\<close>

definition dispatch :: "env \<Rightarrow> row \<Rightarrow> request list \<Rightarrow> (exn + bool \<times> string) \<times> request list" where
  "dispatch E row reqs =
     (if row_get row ''Type'' (Str ''sms'') = Str ''sms''
      then safe_send_sms E (row_get row ''Recipient'' NaN) (row_get row ''Message'' NaN) reqs
      else safe_make_call E (row_get row ''Recipient'' NaN) (row_get row ''Message'' NaN) reqs)"

text \<open>
  An outbox table as loading and \<open>add_to_outbox\<close> produce it: the six columns on
  every row, unique index labels, and attempt counts that \<open>int\<close> accepts.
\<close>

definition outbox_ok :: "frame \<Rightarrow> bool" where
  "outbox_ok df =
     (wf_frame df \<and> columns df = outbox_columns \<and> distinct (map fst (rows df)) \<and>
      list_all (\<lambda>(i, r). \<not> isl (attempts_of r)) (rows df))"

text \<open>
  A message log: the six log columns on every row, or the table without columns that a
  failed load leaves.
\<close>

definition log_ok :: "frame \<Rightarrow> bool" where
  "log_ok df = (wf_frame df \<and> (columns df = log_columns \<or> df = DataFrame []))"

text \<open>The log record that \<open>process_outbox\<close> builds for a row it has sent.\<close>

definition sent_row :: "row \<Rightarrow> string \<Rightarrow> row" where
  "sent_row row date =
     [(''Recipient'', row_get row ''Recipient'' NaN),
      (''Message'', row_get row ''Message'' NaN),
      (''Language'', row_get row ''Language'' (Str ''English'')),
      (''Date Sent'', Str date),
      (''Type'', row_get row ''Type'' (Str ''sms'')),
      (''Status'', Str ''Sent'')]"

text \<open>The rows of a table that carry the index label \<open>j\<close>.\<close>

definition rows_at :: "nat \<Rightarrow> frame \<Rightarrow> (nat \<times> row) list" where
  "rows_at j df = filter (\<lambda>(i, r). i = j) (rows df)"

text \<open>A row on which the loop body does not raise before it sends.\<close>

definition sendable :: "row \<Rightarrow> bool" where
  "sendable row =
     (\<not> isl (attempts_of row) \<and> map_of row ''Recipient'' \<noteq> None \<and>
      map_of row ''Message'' \<noteq> None)"


text \<open>The record that \<open>add_to_outbox\<close> appends.\<close>

definition queued_row :: "string \<Rightarrow> string \<Rightarrow> string \<Rightarrow> string \<Rightarrow> string \<Rightarrow> row" where
  "queued_row recipient message language date msg_type =
     [(''Recipient'', Str recipient), (''Message'', Str message), (''Language'', Str language),
      (''Date Created'', Str date), (''Type'', Str msg_type), (''Attempts'', Num 0)]"

text \<open>A session with five empty tables, no files and no request made.\<close>

definition example_state :: "json_file state" where
  "example_state =
     \<lparr>partners_df = DataFrame [''Name'', ''Role'', ''Language'', ''Contact'', ''Campaign Assigned''],
      message_logs = DataFrame log_columns,
      feedback_df = DataFrame [''Name'', ''Message'', ''Language'', ''Date Submitted''],
      reminders_df = DataFrame [''Task'', ''Due Date'', ''Assigned To'', ''Status''],
      outbox_df = DataFrame outbox_columns,
      files = Map.empty, requests = [], ticks = 0\<rparr>"

section \<open>Example sessions\<close>

text \<open>
  Two environments with Twilio configured: in the first the service creates every
  resource, in the second every request times out.  \<open>queued_state\<close> is the empty
  session after one message was queued, \<open>drained_state\<close> the same after a drain that
  sends it, \<open>retried_state\<close> after two drains that fail; \<open>stuck_state\<close> holds one
  entry that has used its three attempts and one fresh entry.
\<close>

definition example_sender :: env where
  "example_sender = example_env example_secrets (\<lambda>reqs req. Resource (Some ''SM1''))"

definition example_offline :: env where
  "example_offline = example_env example_secrets (\<lambda>reqs req. Raises (Exception ''timeout''))"

definition queued_state :: "json_file state" where
  "queued_state =
     snd (add_to_outbox example_sender records_lib ''+254700000001'' ''Habari'' ''Swahili'' ''sms''
            example_state)"

definition drained_state :: "json_file state" where
  "drained_state = snd (process_outbox example_sender records_lib 3 queued_state)"

definition stuck_state :: "json_file state" where
  "stuck_state =
     example_state\<lparr>outbox_df :=
       \<lparr>columns = outbox_columns,
        rows = [(0, [(''Recipient'', Str ''+254700000001''), (''Message'', Str ''Habari''),
                     (''Language'', Str ''Swahili''), (''Date Created'', Str ''2024-01-01 09:00:00''),
                     (''Type'', Str ''sms''), (''Attempts'', Num 3)]),
                (1, [(''Recipient'', Str ''+254700000002''), (''Message'', Str ''Ber''),
                     (''Language'', Str ''Luo''), (''Date Created'', Str ''2024-01-01 09:30:00''),
                     (''Type'', Str ''voice''), (''Attempts'', Num 0)])]\<rparr>\<rparr>"


definition stuck_drained_state :: "json_file state" where
  "stuck_drained_state = snd (process_outbox example_offline records_lib 3 stuck_state)"

section \<open>More pandas and Python operations\<close>

text \<open>\<open>sep.join(xs)\<close>.\<close>

fun join :: "string \<Rightarrow> string list \<Rightarrow> string" where
  "join sep [] = []"
| "join sep [x] = x"
| "join sep (x # y # ys) = x @ sep @ join sep (y # ys)"

text \<open>
  Python's \<open>==\<close> on two cells, as pandas applies it element by element: the missing
  value equals nothing, not even itself.
\<close>

definition py_eq :: "cell \<Rightarrow> cell \<Rightarrow> bool" where
  "py_eq a b = (a = b \<and> a \<noteq> NaN)"

text \<open>\<open>df[df["Status"] == "Pending"]["Task"].tolist()\<close>.\<close>

definition pending_tasks :: "frame \<Rightarrow> exn + cell list" where
  "pending_tasks df =
     (if ''Status'' \<notin> set (columns df) then Inl (KeyError ''Status'')
      else if ''Task'' \<notin> set (columns df) then Inl (KeyError ''Task'')
      else Inr (map (\<lambda>(i, r). row_get r ''Task'' NaN)
                  (filter (\<lambda>(i, r). py_eq (row_get r ''Status'' NaN) (Str ''Pending'')) (rows df))))"

text \<open>
  \<open>df.loc[mask, c] = v\<close> for a scalar \<open>v\<close>, with the mask given as a test on the row; a new
  column is filled with the missing value in the other rows.
\<close>

definition loc_set :: "frame \<Rightarrow> (row \<Rightarrow> bool) \<Rightarrow> string \<Rightarrow> cell \<Rightarrow> frame" where
  "loc_set df chosen c v =
     \<lparr>columns = (if c \<in> set (columns df) then columns df else columns df @ [c]),
      rows = map (\<lambda>(i, r). (i, if chosen r then AList.update c v r
                               else if c \<in> set (columns df) then r else r @ [(c, NaN)]))
               (rows df)\<rparr>"

section \<open>The pages\<close>

text \<open>
  What the user does in one run of the script.  Widgets return strings; the date input
  arrives as its \<open>strftime("%Y-%m-%d")\<close> text.  \<open>Show page\<close> is a run in which no
  button is pressed, on the page \<open>page\<close>.  \<open>Get_Answer\<close> is the chatbot button: it
  calls OpenAI or scans the FAQs and writes to the page, and touches neither the tables
  nor the files.  The code that only displays tables is not modelled.
\<close>

datatype event =
    Show string
  | Get_Answer string
  | Send_Now string string string string
  | Add_Partner string string "string list" string string
  | Submit_Feedback string string string
  | Add_Reminder string string string
  | Mark_Completed cell
  | Process_Outbox
  | Save_All

text \<open>
  Drawing a page.  The pages "Multilingual Messages" and "Settings" evaluate
  \<open>twilio_configured()\<close>; "Settings" then evaluates \<open>openai_configured()\<close>, which
  raises in the same case only.
\<close>

definition show_page :: "env \<Rightarrow> string \<Rightarrow> 'c state \<Rightarrow> (exn + unit) \<times> 'c state" where
  "show_page E page s =
     (if page = ''Multilingual Messages'' \<or> page = ''Settings''
      then (case twilio_configured E of Inl e \<Rightarrow> (Inl e, s) | Inr configured \<Rightarrow> (Inr (), s))
      else (Inr (), s))"

text \<open>
  The button "Get Answer": \<open>if openai and configure_openai_api()\<close> evaluates
  \<open>openai_configured()\<close> when the library is there; everything after it is inside
  \<open>try\<close> or cannot raise.
\<close>

definition get_answer :: "env \<Rightarrow> string \<Rightarrow> 'c state \<Rightarrow> (exn + unit) \<times> 'c state" where
  "get_answer E user_input s =
     (if user_input = [] then (Inr (), s)
      else if openai E
      then (case openai_configured E of Inl e \<Rightarrow> (Inl e, s) | Inr configured \<Rightarrow> (Inr (), s))
      else (Inr (), s))"

text \<open>
  The "Send Now" button of the page "Multilingual Messages".  The page evaluates
  \<open>twilio_configured()\<close> when it is drawn, before the button, and again in the handler;
  the environment is the same both times.
\<close>

definition send_now ::
  "env \<Rightarrow> 'c json_lib \<Rightarrow> string \<Rightarrow> string \<Rightarrow> string \<Rightarrow> string \<Rightarrow> 'c state
     \<Rightarrow> (exn + unit) \<times> 'c state" where
  "send_now E L recipient msg_text msg_type msg_lang s =
     (case twilio_configured E of
        Inl e \<Rightarrow> (Inl e, s)
      | Inr configured \<Rightarrow>
          (if recipient = [] \<or> msg_text = [] then (Inr (), s)
           else
             (case safe_translate (gt_translator E) msg_text msg_lang of
                Inl e \<Rightarrow> (Inl e, s)
              | Inr translated \<Rightarrow>
                  if msg_type = ''sms'' then
                    (case (if configured \<and> TwilioClient E \<noteq> None
                           then safe_send_sms E (Str recipient) (Str translated) (requests s)
                           else (Inr (False, ''Twilio not configured''), requests s)) of
                       (Inl e, reqs) \<Rightarrow> (Inl e, s\<lparr>requests := reqs\<rparr>)
                     | (Inr (ok, info), reqs) \<Rightarrow>
                         (let s1 = s\<lparr>requests := reqs\<rparr>
                          in if ok then
                               (case now E s1 of
                                  (date, s2) \<Rightarrow>
                                    (let log_row = [(''Recipient'', Str recipient),
                                                    (''Message'', Str translated),
                                                    (''Language'', Str msg_lang),
                                                    (''Date Sent'', Str date),
                                                    (''Type'', Str ''sms''),
                                                    (''Status'', Str ''Sent'')];
                                         s3 = s2\<lparr>message_logs :=
                                                concat_ignore_index (message_logs s2)
                                                  (DataFrame_records [log_row])\<rparr>
                                     in save_table L (message_logs s3) MESSAGES_FILE s3))
                             else add_to_outbox E L recipient translated msg_lang ''sms'' s1))
                  else
                    (case (if configured \<and> TwilioClient E \<noteq> None
                           then safe_make_call E (Str recipient) (Str translated) (requests s)
                           else (Inr (False, ''Twilio not configured''), requests s)) of
                       (Inl e, reqs) \<Rightarrow> (Inl e, s\<lparr>requests := reqs\<rparr>)
                     | (Inr (ok, info), reqs) \<Rightarrow>
                         (let s1 = s\<lparr>requests := reqs\<rparr>
                          in if ok then
                               (case now E s1 of
                                  (date, s2) \<Rightarrow>
                                    (let log_row = [(''Recipient'', Str recipient),
                                                    (''Message'', Str translated),
                                                    (''Language'', Str msg_lang),
                                                    (''Date Sent'', Str date),
                                                    (''Type'', Str ''voice''),
                                                    (''Status'', Str ''Sent'')];
                                         s3 = s2\<lparr>message_logs :=
                                                concat_ignore_index (message_logs s2)
                                                  (DataFrame_records [log_row])\<rparr>
                                     in save_table L (message_logs s3) MESSAGES_FILE s3))
                             else add_to_outbox E L recipient translated msg_lang ''voice'' s1)))))"

text \<open>The "Add Partner" button.\<close>

definition add_partner ::
  "'c json_lib \<Rightarrow> string \<Rightarrow> string \<Rightarrow> string list \<Rightarrow> string \<Rightarrow> string \<Rightarrow> 'c state
     \<Rightarrow> (exn + unit) \<times> 'c state" where
  "add_partner L name role langs contact campaign s =
     (if name = [] then (Inr (), s)
      else
        (let new_partner = [(''Name'', Str name),
                            (''Role'', Str role),
                            (''Language'', Str (join '', '' langs)),
                            (''Contact'', Str contact),
                            (''Campaign Assigned'', Str campaign)];
             s1 = s\<lparr>partners_df :=
                     concat_ignore_index (partners_df s) (DataFrame_records [new_partner])\<rparr>
         in save_table L (partners_df s1) PARTNERS_FILE s1))"

text \<open>The "Submit Feedback" button.\<close>

definition submit_feedback ::
  "env \<Rightarrow> 'c json_lib \<Rightarrow> string \<Rightarrow> string \<Rightarrow> string \<Rightarrow> 'c state \<Rightarrow> (exn + unit) \<times> 'c state" where
  "submit_feedback E L fname fmsg flang s =
     (if fname = [] \<or> fmsg = [] then (Inr (), s)
      else
        (case now E s of
           (date, s1) \<Rightarrow>
             (let new_fb = [(''Name'', Str fname),
                            (''Message'', Str fmsg),
                            (''Language'', Str flang),
                            (''Date Submitted'', Str date)];
                  s2 = s1\<lparr>feedback_df :=
                          concat_ignore_index (feedback_df s1) (DataFrame_records [new_fb])\<rparr>
              in case save_table L (feedback_df s2) FEEDBACK_FILE s2 of
                   (Inl e, s3) \<Rightarrow> (Inl e, s3)
                 | (Inr u, s3) \<Rightarrow>
                     (case safe_translate (gt_translator E) ''Thank you for your feedback!'' flang of
                        Inl e \<Rightarrow> (Inl e, s3)
                      | Inr conf \<Rightarrow> (Inr (), s3)))))"

text \<open>The "Add Reminder" button.\<close>

definition add_reminder ::
  "'c json_lib \<Rightarrow> string \<Rightarrow> string \<Rightarrow> string \<Rightarrow> 'c state \<Rightarrow> (exn + unit) \<times> 'c state" where
  "add_reminder L task due_date assigned_to s =
     (if task = [] \<or> assigned_to = [] then (Inr (), s)
      else
        (let new_rem = [(''Task'', Str task),
                        (''Due Date'', Str due_date),
                        (''Assigned To'', Str assigned_to),
                        (''Status'', Str ''Pending'')];
             s1 = s\<lparr>reminders_df :=
                     concat_ignore_index (reminders_df s) (DataFrame_records [new_rem])\<rparr>
         in save_table L (reminders_df s1) REMINDERS_FILE s1))"

text \<open>
  The "Mark Completed" button.  It is drawn only when the table is not empty and some
  task is pending, and the select box returns one of the pending tasks; a value that is
  not among them cannot arrive and changes nothing.
\<close>

definition mark_completed ::
  "'c json_lib \<Rightarrow> cell \<Rightarrow> 'c state \<Rightarrow> (exn + unit) \<times> 'c state" where
  "mark_completed L selected_task s =
     (if empty_df (reminders_df s) then (Inr (), s)
      else
        (case pending_tasks (reminders_df s) of
           Inl e \<Rightarrow> (Inl e, s)
         | Inr pending \<Rightarrow>
             if pending = [] \<or> selected_task \<notin> set pending then (Inr (), s)
             else
               (let s1 = s\<lparr>reminders_df :=
                           loc_set (reminders_df s)
                             (\<lambda>r. py_eq (row_get r ''Task'' NaN) selected_task)
                             ''Status'' (Str ''Completed'')\<rparr>
                in save_table L (reminders_df s1) REMINDERS_FILE s1)))"

text \<open>
  The "Process Outbox" button: \<open>process_outbox()\<close> inside \<open>try\<close>, with every exception
  caught and shown.
\<close>

definition process_outbox_button :: "env \<Rightarrow> 'c json_lib \<Rightarrow> 'c state \<Rightarrow> (exn + unit) \<times> 'c state" where
  "process_outbox_button E L s =
     (case process_outbox E L 3 s of (out, s1) \<Rightarrow> (Inr (), s1))"

text \<open>
  The button "Save all data to disk now" of the page "Settings", which evaluates
  \<open>twilio_configured()\<close> before it draws the button.
\<close>

definition save_all :: "env \<Rightarrow> 'c json_lib \<Rightarrow> 'c state \<Rightarrow> (exn + unit) \<times> 'c state" where
  "save_all E L s =
     (case twilio_configured E of
        Inl e \<Rightarrow> (Inl e, s)
      | Inr tw_conf \<Rightarrow> persist_all L s)"

definition handle :: "env \<Rightarrow> 'c json_lib \<Rightarrow> event \<Rightarrow> 'c state \<Rightarrow> (exn + unit) \<times> 'c state" where
  "handle E L ev s =
     (case ev of
        Show page \<Rightarrow> show_page E page s
      | Get_Answer user_input \<Rightarrow> get_answer E user_input s
      | Send_Now recipient msg_text msg_type msg_lang \<Rightarrow>
          send_now E L recipient msg_text msg_type msg_lang s
      | Add_Partner name role langs contact campaign \<Rightarrow>
          add_partner L name role langs contact campaign s
      | Submit_Feedback fname fmsg flang \<Rightarrow> submit_feedback E L fname fmsg flang s
      | Add_Reminder task due_date assigned_to \<Rightarrow> add_reminder L task due_date assigned_to s
      | Mark_Completed selected_task \<Rightarrow> mark_completed L selected_task s
      | Process_Outbox \<Rightarrow> process_outbox_button E L s
      | Save_All \<Rightarrow> save_all E L s)"

text \<open>
  One run of the script after the session is loaded: the page code, then
  \<open>persist_all()\<close> as the last statement, which an exception in the page skips.
\<close>

definition run :: "env \<Rightarrow> 'c json_lib \<Rightarrow> event \<Rightarrow> 'c state \<Rightarrow> (exn + unit) \<times> 'c state" where
  "run E L ev s =
     (case handle E L ev s of
        (Inl e, s1) \<Rightarrow> (Inl e, s1)
      | (Inr u, s1) \<Rightarrow> persist_all L s1)"

text \<open>The first run of a session loads the five tables from the files.\<close>

definition startup :: "'c json_lib \<Rightarrow> 'c files \<Rightarrow> exn + 'c state" where
  "startup L fs =
     (case load_df_from_file L fs PARTNERS_FILE
             [''Name'', ''Role'', ''Language'', ''Contact'', ''Campaign Assigned''] of
        Inl e \<Rightarrow> Inl e
      | Inr partners \<Rightarrow>
     (case load_df_from_file L fs MESSAGES_FILE
             [''Recipient'', ''Message'', ''Language'', ''Date Sent'', ''Type'', ''Status''] of
        Inl e \<Rightarrow> Inl e
      | Inr messages \<Rightarrow>
     (case load_df_from_file L fs FEEDBACK_FILE
             [''Name'', ''Message'', ''Language'', ''Date Submitted''] of
        Inl e \<Rightarrow> Inl e
      | Inr feedback \<Rightarrow>
     (case load_df_from_file L fs REMINDERS_FILE
             [''Task'', ''Due Date'', ''Assigned To'', ''Status''] of
        Inl e \<Rightarrow> Inl e
      | Inr reminders \<Rightarrow>
     (case load_df_from_file L fs OUTBOX_FILE
             [''Recipient'', ''Message'', ''Language'', ''Date Created'', ''Type'', ''Attempts''] of
        Inl e \<Rightarrow> Inl e
      | Inr outbox \<Rightarrow>
          Inr \<lparr>partners_df = partners, message_logs = messages, feedback_df = feedback,
               reminders_df = reminders, outbox_df = outbox,
               files = fs, requests = [], ticks = 0\<rparr>)))))"

text \<open>\<open>df["Status"].tolist()\<close>, reading a cell that a row lacks as missing.\<close>

definition statuses :: "frame \<Rightarrow> cell list" where
  "statuses df = map (\<lambda>(i, r). row_get r ''Status'' NaN) (rows df)"

text \<open>
  Sessions with reminders: one reminder; three reminders, two of them for the task
  "Call clinic"; and the latter after "Call clinic" was marked completed.
\<close>

definition planned_state :: "json_file state" where
  "planned_state =
     snd (run example_offline records_lib (Add_Reminder ''Call clinic'' ''2024-02-01'' ''Achieng'')
            example_state)"

definition planned_twice_state :: "json_file state" where
  "planned_twice_state =
     snd (run example_offline records_lib (Add_Reminder ''Call clinic'' ''2024-03-01'' ''Otieno'')
            (snd (run example_offline records_lib
                    (Add_Reminder ''Print posters'' ''2024-02-15'' ''Achieng'') planned_state)))"

definition completed_state :: "json_file state" where
  "completed_state =
     snd (run example_offline records_lib (Mark_Completed (Str ''Call clinic''))
            planned_twice_state)"

section \<open>Properties of the translation\<close>

lemma custom_translations_Luo_keys:
  "k \<notin> {''What is SHA?'', ''How can I register for SHA?'', ''Which services are covered?'',
         ''Thank you for your feedback!''}
   \<Longrightarrow> dict_get (dict_get custom_translations ''Luo'' Map.empty) k d = d"
  by (simp add: custom_translations_def dict_get_def)

lemma custom_translations_Luhya_keys:
  "k \<notin> {''What is SHA?'', ''How can I register for SHA?'', ''Which services are covered?'',
         ''Thank you for your feedback!''}
   \<Longrightarrow> dict_get (dict_get custom_translations ''Luhya'' Map.empty) k d = d"
  by (simp add: custom_translations_def dict_get_def)

lemma custom_translations_dom:
  "custom_translations lang = Some d \<Longrightarrow> lang = ''Luo'' \<or> lang = ''Luhya''"
  by (simp add: custom_translations_def split: if_splits)

lemma custom_translations_no_empty_key:
  "custom_translations lang = Some d \<Longrightarrow> d [] = None"
  by (auto simp: custom_translations_def split: if_splits)

text \<open>
  C6.  \<open>safe_translate\<close> returns a string and never raises, whatever the text, the
  language and the translator are.  For English the result is the text; for a language
  that is none of English, Swahili, Luo and Luhya the result is the text; for Swahili the
  result is the text when googletrans is absent and when its call raises.
\<close>

theorem safe_translate_never_raises:
  "(\<exists>t. safe_translate gt text lang = Inr t) \<and>
   safe_translate gt text ''English'' = Inr text \<and>
   (lang \<notin> {''English'', ''Swahili'', ''Luo'', ''Luhya''} \<longrightarrow>
      safe_translate gt text lang = Inr text) \<and>
   safe_translate None text ''Swahili'' = Inr text \<and>
   (translate text ''sw'' = Inl e \<longrightarrow>
      safe_translate (Some translate) text ''Swahili'' = Inr text)"
  by (auto simp: safe_translate_def split: option.splits sum.splits)

theorem safe_translate_never_raises_witness:
  "''French'' \<notin> {''English'', ''Swahili'', ''Luo'', ''Luhya''} \<and>
   (\<lambda>t d. Inl (Exception ''offline'')) ''Hello'' ''sw'' = (Inl (Exception ''offline'') :: exn + string) \<and>
   safe_translate (Some (\<lambda>t d. Inl (Exception ''offline''))) ''Hello'' ''French'' = Inr ''Hello'' \<and>
   safe_translate (Some (\<lambda>t d. Inl (Exception ''offline''))) ''Hello'' ''Swahili'' = Inr ''Hello''"
  using safe_translate_never_raises
    [of "Some (\<lambda>t d. Inl (Exception ''offline''))" "''Hello''" "''French''"
        "\<lambda>t d. Inl (Exception ''offline'')" "Exception ''offline''"]
  by simp

text \<open>
  C7.  For Luo and Luhya the translation is an exact lookup in \<open>custom_translations\<close>:
  "What is SHA?" gives the fixed Luo sentence, a text that is a key of the language's
  dictionary gives its entry, and every text that is not a key, such as
  "unknown phrase", comes back unchanged.
\<close>

theorem safe_translate_exact_match:
  "safe_translate gt ''What is SHA?'' ''Luo'' =
     Inr ''SHA en Social Health Authority, ma orit gi dhok yi mondo giko gi bedo mag dhok.'' \<and>
   safe_translate gt ''unknown phrase'' ''Luo'' = Inr ''unknown phrase'' \<and>
   (custom_translations lang = Some d \<longrightarrow> d text = Some t \<longrightarrow>
      safe_translate gt text lang = Inr t) \<and>
   (custom_translations lang = Some d \<longrightarrow> d text = None \<longrightarrow>
      safe_translate gt text lang = Inr text)"
proof -
  have fixed: "safe_translate gt ''What is SHA?'' ''Luo'' =
      Inr ''SHA en Social Health Authority, ma orit gi dhok yi mondo giko gi bedo mag dhok.''"
    by (simp add: safe_translate_def custom_translations_def dict_get_def)
  have unknown: "safe_translate gt ''unknown phrase'' ''Luo'' = Inr ''unknown phrase''"
    by (simp add: safe_translate_def custom_translations_Luo_keys)
  have hit: "safe_translate gt text lang = Inr t"
    if "custom_translations lang = Some d" "d text = Some t"
  proof -
    have "text \<noteq> []"
      using custom_translations_no_empty_key [OF that(1)] that(2) by auto
    moreover have "lang \<in> {''Luo'', ''Luhya''}"
      using custom_translations_dom [OF that(1)] by auto
    ultimately show ?thesis
      using that by (simp add: safe_translate_def dict_get_def)
  qed
  have miss: "safe_translate gt text lang = Inr text"
    if "custom_translations lang = Some d" "d text = None"
  proof -
    have "lang \<in> {''Luo'', ''Luhya''}"
      using custom_translations_dom [OF that(1)] by auto
    then show ?thesis
      using that by (simp add: safe_translate_def dict_get_def)
  qed
  from fixed unknown hit miss show ?thesis by blast
qed

theorem safe_translate_exact_match_witness:
  "custom_translations ''Luhya'' = Some (map_of
        [(''What is SHA?'', ''SHA ni Social Health Authority, ebuya amagara netaweire.''),
         (''How can I register for SHA?'', ''Olwikhilire kuhealth center oba e SHA portal.''),
         (''Which services are covered?'',
          ''SHA ibuyire preventive care, maternal care, ne essential treatments.''),
         (''Thank you for your feedback!'', ''Webale muno okhu'')]) \<and>
   safe_translate None ''Thank you for your feedback!'' ''Luhya'' = Inr ''Webale muno okhu'' \<and>
   safe_translate None ''What is SHA'' ''Luhya'' = Inr ''What is SHA''"
  using safe_translate_exact_match
    [of None "''Luhya''"
        "map_of
        [(''What is SHA?'', ''SHA ni Social Health Authority, ebuya amagara netaweire.''),
         (''How can I register for SHA?'', ''Olwikhilire kuhealth center oba e SHA portal.''),
         (''Which services are covered?'',
          ''SHA ibuyire preventive care, maternal care, ne essential treatments.''),
         (''Thank you for your feedback!'', ''Webale muno okhu'')]"
        "''Thank you for your feedback!''" "''Webale muno okhu''"]
    safe_translate_exact_match
    [of None "''Luhya''"
        "map_of
        [(''What is SHA?'', ''SHA ni Social Health Authority, ebuya amagara netaweire.''),
         (''How can I register for SHA?'', ''Olwikhilire kuhealth center oba e SHA portal.''),
         (''Which services are covered?'',
          ''SHA ibuyire preventive care, maternal care, ne essential treatments.''),
         (''Thank you for your feedback!'', ''Webale muno okhu'')]"
        "''What is SHA''" "''x''"]
  by (simp add: custom_translations_def)

section \<open>Properties of the Twilio senders\<close>

lemma twilio_configured_no_secrets: "secrets E = Inl e \<Longrightarrow> twilio_configured E = Inl e"
  by (simp add: twilio_configured_def)

lemma twilio_configured_secrets: "secrets E = Inr sec \<Longrightarrow> \<exists>b. twilio_configured E = Inr b"
  by (auto simp: twilio_configured_def Let_def)

lemma get_twilio_client_no_secrets: "secrets E = Inl e \<Longrightarrow> get_twilio_client E = Inl e"
  by (simp add: get_twilio_client_def twilio_configured_no_secrets)

lemma get_twilio_client_secrets: "secrets E = Inr sec \<Longrightarrow> \<exists>c. get_twilio_client E = Inr c"
  using twilio_configured_secrets [of E sec]
  by (auto simp: get_twilio_client_def split: sum.splits option.splits prod.splits)

lemma get_twilio_client_unconfigured:
  "twilio_configured E = Inr False \<Longrightarrow> get_twilio_client E = Inr None"
  by (simp add: get_twilio_client_def)

text \<open>With no secrets file both senders raise, whatever the process environment holds.\<close>

lemma safe_send_no_secrets:
  "secrets E = Inl e \<Longrightarrow>
   safe_send_sms E to_number body reqs = (Inl e, reqs) \<and>
   safe_make_call E to_number body reqs = (Inl e, reqs)"
  by (simp add: safe_send_sms_def safe_make_call_def get_twilio_client_no_secrets)

text \<open>
  With a secrets file the senders return a pair \<open>(ok, info)\<close>.  Without a client (not
  configured, or the library is missing) the result is
  \<open>(False, "Twilio not configured or library missing.")\<close> and no request is made.  With
  a client, an exception yields \<open>(False, str(e))\<close> and a created resource yields
  \<open>True\<close> with its \<open>sid\<close>, or with the fixed default when it has none.
\<close>

lemma safe_send_with_secrets:
  "(secrets E = Inr sec \<longrightarrow>
      (\<exists>ok info. fst (safe_send_sms E to_number body reqs) = Inr (ok, info)) \<and>
      (\<exists>ok info. fst (safe_make_call E to_number body reqs) = Inr (ok, info))) \<and>
   (twilio_configured E = Inr False \<longrightarrow> get_twilio_client E = Inr None) \<and>
   (get_twilio_client E = Inr None \<longrightarrow>
      safe_send_sms E to_number body reqs =
        (Inr (False, ''Twilio not configured or library missing.''), reqs) \<and>
      safe_make_call E to_number body reqs =
        (Inr (False, ''Twilio not configured or library missing.''), reqs)) \<and>
   (get_twilio_client E = Inr (Some c) \<longrightarrow> from_number E = Inl e \<longrightarrow>
      safe_send_sms E to_number body reqs = (Inr (False, str_exn e), reqs) \<and>
      safe_make_call E to_number body reqs = (Inr (False, str_exn e), reqs)) \<and>
   (get_twilio_client E = Inr (Some c) \<longrightarrow> from_number E = Inr from \<longrightarrow>
      provider E reqs (messages_create body from to_number) = Raises e \<longrightarrow>
      safe_send_sms E to_number body reqs =
        (Inr (False, str_exn e), reqs @ [messages_create body from to_number])) \<and>
   (get_twilio_client E = Inr (Some c) \<longrightarrow> from_number E = Inr from \<longrightarrow>
      provider E reqs (messages_create body from to_number) = Resource sid \<longrightarrow>
      safe_send_sms E to_number body reqs =
        (Inr (True, getattr_sid sid ''sent''), reqs @ [messages_create body from to_number])) \<and>
   (get_twilio_client E = Inr (Some c) \<longrightarrow> from_number E = Inr from \<longrightarrow>
      provider E reqs
        (calls_create (''<Response><Say>'' @ py_str body @ ''</Say></Response>'') from to_number)
        = Raises e \<longrightarrow>
      safe_make_call E to_number body reqs =
        (Inr (False, str_exn e),
         reqs @ [calls_create (''<Response><Say>'' @ py_str body @ ''</Say></Response>'')
                   from to_number])) \<and>
   (get_twilio_client E = Inr (Some c) \<longrightarrow> from_number E = Inr from \<longrightarrow>
      provider E reqs
        (calls_create (''<Response><Say>'' @ py_str body @ ''</Say></Response>'') from to_number)
        = Resource sid \<longrightarrow>
      safe_make_call E to_number body reqs =
        (Inr (True, getattr_sid sid ''call-initiated''),
         reqs @ [calls_create (''<Response><Say>'' @ py_str body @ ''</Say></Response>'')
                   from to_number])) \<and>
   getattr_sid (Some ref) d = ref"
  using get_twilio_client_secrets [of E sec]
  by (auto simp: safe_send_sms_def safe_make_call_def get_twilio_client_unconfigured
      getattr_sid_def Let_def split: option.splits sum.splits response.splits)

lemmas example_simps = get_twilio_client_def example_env_def example_secrets_def
  twilio_configured_def secret_item_def from_number_def truthy_def

text \<open>
  C8.  The senders do raise.  \<open>twilio_configured()\<close> tests \<open>"twilio" in st.secrets\<close>
  outside every \<open>try\<close>, \<open>get_twilio_client()\<close> calls it before its own \<open>try\<close>, and
  both senders call \<open>get_twilio_client()\<close> before theirs.  With no secrets file, the
  exception of \<open>st.secrets\<close> leaves \<open>safe_send_sms\<close> and \<open>safe_make_call\<close>, with
  Twilio not configured at all and also with the three variables set in the process
  environment; no request is made.
\<close>

theorem safe_send_no_secrets_file:
  "safe_send_sms (no_secrets_env Map.empty) (Str ''+254700000001'') (Str ''Habari'') [] =
     (Inl (Exception ''No secrets found''), []) \<and>
   safe_make_call (no_secrets_env Map.empty) (Str ''+254700000001'') (Str ''Habari'') [] =
     (Inl (Exception ''No secrets found''), []) \<and>
   safe_send_sms
     (no_secrets_env [''TWILIO_ACCOUNT_SID'' \<mapsto> ''AC1'', ''TWILIO_AUTH_TOKEN'' \<mapsto> ''tok'',
                      ''TWILIO_PHONE_NUMBER'' \<mapsto> ''+15550100''])
     (Str ''+254700000001'') (Str ''Habari'') [] =
     (Inl (Exception ''No secrets found''), [])"
  by (simp add: safe_send_no_secrets no_secrets_env_def)

section \<open>Properties of loading and saving\<close>

lemma first_seen_absorb: "set xs \<subseteq> set acc \<Longrightarrow> first_seen acc xs = acc"
  by (induction xs arbitrary: acc) auto

lemma first_seen_distinct: "distinct (acc @ cs) \<Longrightarrow> first_seen acc cs = acc @ cs"
  by (induction cs arbitrary: acc) auto

lemma first_seen_append: "first_seen acc (xs @ ys) = first_seen (first_seen acc xs) ys"
  by (induction xs arbitrary: acc) auto

lemma set_first_seen: "set (first_seen acc cs) = set acc \<union> set cs"
  by (induction cs arbitrary: acc) auto

lemma first_seen_same_keys:
  "distinct cs \<Longrightarrow> recs \<noteq> [] \<Longrightarrow> list_all (\<lambda>r. map fst r = cs) recs
   \<Longrightarrow> first_seen [] (concat (map (map fst) recs)) = cs"
proof -
  assume d: "distinct cs" and ne: "recs \<noteq> []" and all: "list_all (\<lambda>r. map fst r = cs) recs"
  from ne obtain r rest where recs: "recs = r # rest" by (cases recs) auto
  with all have r: "map fst r = cs" and rest: "list_all (\<lambda>r. map fst r = cs) rest" by auto
  from rest have "set (concat (map (map fst) rest)) \<subseteq> set cs"
    by (induction rest) auto
  then have "first_seen cs (concat (map (map fst) rest)) = cs"
    by (rule first_seen_absorb)
  moreover have "first_seen [] cs = cs"
    using first_seen_distinct [of "[]" cs] d by simp
  ultimately show ?thesis
    by (simp add: recs r first_seen_append)
qed

lemma reindex_own_keys: "distinct (map fst r) \<Longrightarrow> reindex (map fst r) r = r"
proof (induction r)
  case Nil
  then show ?case by (simp add: reindex_def)
next
  case (Cons kv r)
  obtain k v where kv: "kv = (k, v)" by (cases kv)
  from Cons.prems have k: "k \<notin> fst ` set r" and d: "distinct (map fst r)"
    by (auto simp: kv)
  have "map (\<lambda>c. (c, row_get ((k, v) # r) c NaN)) (map fst r) =
        map (\<lambda>c. (c, row_get r c NaN)) (map fst r)"
    using k by (intro map_cong) (auto simp: row_get_def)
  with Cons.IH [OF d] show ?case
    by (simp add: reindex_def kv row_get_def)
qed

lemma columns_backfill: "columns (backfill df cs) = first_seen (columns df) cs"
  by (induction cs arbitrary: df) (auto simp: setitem_def)

lemma backfill_present: "set cs \<subseteq> set (columns df) \<Longrightarrow> backfill df cs = df"
  by (induction cs arbitrary: df) auto

lemma rows_backfill_empty: "rows df = [] \<Longrightarrow> rows (backfill df cs) = []"
  by (induction cs arbitrary: df) (auto simp: setitem_def)

lemma getitem_backfill:
  "getitem (backfill df cs) cs =
     Inr \<lparr>columns = cs, rows = map (\<lambda>(i, r). (i, reindex cs r)) (rows (backfill df cs))\<rparr>"
proof -
  have "set cs \<subseteq> set (columns (backfill df cs))"
    by (simp add: columns_backfill set_first_seen)
  then have "filter (\<lambda>c. c \<notin> set (columns (backfill df cs))) cs = []"
    by (auto simp: filter_empty_conv)
  then show ?thesis by (simp add: getitem_def)
qed

lemma ensure_columns_result:
  "ensure_columns df cs =
     Inr (if cs \<noteq> [] then
            \<lparr>columns = cs, rows = map (\<lambda>(i, r). (i, reindex cs r)) (rows (backfill df cs))\<rparr>
          else df)"
  by (simp add: ensure_columns_def getitem_backfill)


lemma load_df_from_file_returns: "\<exists>df. load_df_from_file L fs path cs = Inr df"
  by (simp add: load_df_from_file_def ensure_columns_result split: option.splits sum.splits)

lemma load_df_from_file_columns:
  assumes "load_df_from_file L fs path cs = Inr df" and "cs \<noteq> []"
  shows "columns df = cs \<or>
         (df = DataFrame [] \<and>
          (\<exists>c. fs path = Some c \<and> isl (read_json L c) \<and> isl (json_load_DataFrame L c)))"
  using assms
  by (auto simp: load_df_from_file_def ensure_columns_result DataFrame_def
      split: option.splits sum.splits)

text \<open>
  C4.  \<open>load_df_from_file\<close> never raises (\<open>load_df_from_file_returns\<close>), and the
  table has exactly the expected columns when the file is absent and when one of the two
  parsers accepts it (\<open>load_df_from_file_columns\<close>).  When both parsers raise, the
  last handler returns \<open>pd.DataFrame()\<close>, which has no columns: for a reminders file
  that is not JSON the result lacks the four expected columns.
\<close>

theorem load_df_from_file_unreadable:
  "load_df_from_file records_lib [REMINDERS_FILE \<mapsto> Not_json ''not json''] REMINDERS_FILE
       [''Task'', ''Due Date'', ''Assigned To'', ''Status''] = Inr (DataFrame []) \<and>
   columns (DataFrame []) \<noteq> [''Task'', ''Due Date'', ''Assigned To'', ''Status'']"
  by (simp add: load_df_from_file_def records_lib_def DataFrame_def)

lemma map_reindex_same_keys:
  "distinct cs \<Longrightarrow> list_all (\<lambda>r. map fst r = cs) recs \<Longrightarrow> map (reindex cs) recs = recs"
  by (induction recs) (auto simp: reindex_own_keys)

lemma map_enumerate_snd:
  "map (\<lambda>(i, r). (i, f r)) (enumerate n xs) = enumerate n (map f xs)"
  by (induction xs arbitrary: n) auto

lemma DataFrame_records_same_keys:
  assumes "distinct cs" and "list_all (\<lambda>r. map fst r = cs) recs" and "recs \<noteq> []"
  shows "DataFrame_records recs = \<lparr>columns = cs, rows = enumerate 0 recs\<rparr>"
  using assms
  by (simp add: DataFrame_records_def first_seen_same_keys map_reindex_same_keys)

lemma DataFrame_records_no_keys:
  assumes "list_all (\<lambda>r. map fst r = []) recs"
  shows "DataFrame_records recs = \<lparr>columns = [], rows = enumerate 0 recs\<rparr>"
proof -
  from assms have c: "concat (map (map fst) recs) = []"
    by (induction recs) auto
  from assms have m: "map (reindex []) recs = recs"
    by (simp add: map_reindex_same_keys)
  show ?thesis
    by (simp add: DataFrame_records_def c m)
qed

lemma wf_frame_records:
  "wf_frame df \<Longrightarrow> list_all (\<lambda>r. map fst r = columns df) (to_dict_records df)"
  by (auto simp: wf_frame_def to_dict_records_def list_all_iff)

lemma ensure_columns_records:
  assumes wf: "wf_frame T"
  shows "ensure_columns (DataFrame_records (to_dict_records T)) (columns T) = Inr (reset_index T)"
proof -
  let ?cs = "columns T" and ?recs = "to_dict_records T"
  from wf have d: "distinct ?cs" by (simp add: wf_frame_def)
  note keys = wf_frame_records [OF wf]
  show ?thesis
  proof (cases "?cs = []")
    case True
    with keys have "DataFrame_records ?recs = \<lparr>columns = [], rows = enumerate 0 ?recs\<rparr>"
      by (simp add: DataFrame_records_no_keys)
    with True show ?thesis
      by (simp add: ensure_columns_def reset_index_def)
  next
    case cs: False
    show ?thesis
    proof (cases "?recs = []")
      case True
      then have "DataFrame_records ?recs = \<lparr>columns = [], rows = []\<rparr>"
        by (simp add: DataFrame_records_def)
      moreover have "first_seen [] ?cs = ?cs"
        using first_seen_distinct [of "[]" ?cs] d by simp
      ultimately show ?thesis
        using cs True
        by (simp add: ensure_columns_result rows_backfill_empty reset_index_def)
    next
      case False
      with d keys have df: "DataFrame_records ?recs = \<lparr>columns = ?cs, rows = enumerate 0 ?recs\<rparr>"
        by (simp add: DataFrame_records_same_keys)
      have "backfill \<lparr>columns = ?cs, rows = enumerate 0 ?recs\<rparr> ?cs
            = \<lparr>columns = ?cs, rows = enumerate 0 ?recs\<rparr>"
        by (rule backfill_present) simp
      with cs d keys df show ?thesis
        by (simp add: ensure_columns_result map_enumerate_snd map_reindex_same_keys
            reset_index_def)
    qed
  qed
qed

lemma save_written:
  "written L df path = Some c \<Longrightarrow>
   fst (save_df_to_file L df path fs) = Inr () \<and> snd (save_df_to_file L df path fs) path = Some c"
  by (auto simp: written_def save_df_to_file_def Let_def split: written.splits)

lemma load_reads_back:
  "fs path = Some c \<Longrightarrow> reads_back L c recs \<Longrightarrow>
   load_df_from_file L fs path cs = ensure_columns (DataFrame_records recs) cs"
  by (auto simp: load_df_from_file_def reads_back_def ensure_columns_result
      split: sum.splits)

lemma save_then_load_round_trips:
  assumes "wf_frame T" and "round_trips L T path"
  shows "save_then_load L T path fs = Inr (reset_index T)"
proof -
  from assms(2) obtain c where w: "written L T path = Some c"
    and r: "reads_back L c (to_dict_records T)"
    by (auto simp: round_trips_def split: option.splits)
  obtain res fs1 where s: "save_df_to_file L T path fs = (res, fs1)"
    by (cases "save_df_to_file L T path fs")
  with save_written [OF w, of fs] have "res = Inr ()" and "fs1 path = Some c"
    by simp_all
  with s r show ?thesis
    by (simp add: save_then_load_def load_reads_back ensure_columns_records [OF assms(1)])
qed

lemma to_dict_records_reset_index: "to_dict_records (reset_index T) = to_dict_records T"
  by (simp add: reset_index_def to_dict_records_def)

lemma enumerate_snd_in: "(i, r) \<in> set (enumerate n xs) \<Longrightarrow> r \<in> set xs"
  by (auto simp: in_set_enumerate_eq)

lemma wf_frame_reset_index: "wf_frame T \<Longrightarrow> wf_frame (reset_index T)"
  by (fastforce simp: wf_frame_def reset_index_def to_dict_records_def list_all_iff
      dest!: enumerate_snd_in)

lemma reset_index_idem: "reset_index (reset_index T) = reset_index T"
  by (simp add: reset_index_def to_dict_records_def)

text \<open>
  What \<open>load_df_from_file\<close> gives after \<open>save_df_to_file\<close> depends on the reader: for a
  well-formed table \<open>T\<close>, when the library reads back the records it wrote, the result has
  the columns and the record sequence of \<open>T\<close> (with index 0, 1, ...), and saving and
  loading that result again gives the same table.
\<close>

lemma save_load_when_read_back:
  assumes "wf_frame T"
    and "round_trips L T path"
    and "round_trips L (reset_index T) path"
  shows "save_then_load L T path fs = Inr (reset_index T) \<and>
         columns (reset_index T) = columns T \<and>
         to_dict_records (reset_index T) = to_dict_records T \<and>
         save_then_load L (reset_index T) path fs2 = Inr (reset_index T)"
  using save_then_load_round_trips [OF assms(1) assms(2), of fs]
    save_then_load_round_trips [OF wf_frame_reset_index [OF assms(1)] assms(3), of fs2]
  by (simp add: to_dict_records_reset_index reset_index_idem) (simp add: reset_index_def)

lemma int_of_str_phone: "int_of_str ''+254700000001'' = Inr 254700000001"
  by (simp add: int_of_str_def digit_val_def)

lemma int_of_str_letters:
  "isl (int_of_str ''Habari'')" "isl (int_of_str ''Swahili'')" "isl (int_of_str ''sms'')"
  "isl (int_of_str ''2024-01-01 10:00:00'')"
  by (simp_all add: int_of_str_def digit_val_def)

text \<open>
  C5.  The saved table need not come back.  An outbox with one queued SMS, as
  \<open>add_to_outbox\<close> builds it, has the recipient's number as a string.  Saving it writes
  the records; loading the file with the same columns goes through \<open>pd.read_json\<close>, which
  reads the column \<open>Recipient\<close> as integers, so the loaded record has the integer
  254700000001 where the saved one has the string \<open>+254700000001\<close>: the record sequence is
  not the one of the table that was saved.  Saving and loading the loaded table once more
  does give the loaded table.
\<close>

theorem save_load_numeric_text:
  "wf_frame
     \<lparr>columns = [''Recipient'', ''Message'', ''Language'', ''Date Created'', ''Type'', ''Attempts''],
      rows = [(0, [(''Recipient'', Str ''+254700000001''), (''Message'', Str ''Habari''),
                   (''Language'', Str ''Swahili''), (''Date Created'', Str ''2024-01-01 10:00:00''),
                   (''Type'', Str ''sms''), (''Attempts'', Num 0)])]\<rparr> \<and>
   save_then_load records_lib
     \<lparr>columns = [''Recipient'', ''Message'', ''Language'', ''Date Created'', ''Type'', ''Attempts''],
      rows = [(0, [(''Recipient'', Str ''+254700000001''), (''Message'', Str ''Habari''),
                   (''Language'', Str ''Swahili''), (''Date Created'', Str ''2024-01-01 10:00:00''),
                   (''Type'', Str ''sms''), (''Attempts'', Num 0)])]\<rparr>
     OUTBOX_FILE Map.empty =
   Inr \<lparr>columns = [''Recipient'', ''Message'', ''Language'', ''Date Created'', ''Type'', ''Attempts''],
        rows = [(0, [(''Recipient'', Num 254700000001), (''Message'', Str ''Habari''),
                     (''Language'', Str ''Swahili''), (''Date Created'', Str ''2024-01-01 10:00:00''),
                     (''Type'', Str ''sms''), (''Attempts'', Num 0)])]\<rparr> \<and>
   to_dict_records
     \<lparr>columns = [''Recipient'', ''Message'', ''Language'', ''Date Created'', ''Type'', ''Attempts''],
      rows = [(0, [(''Recipient'', Num 254700000001), (''Message'', Str ''Habari''),
                   (''Language'', Str ''Swahili''), (''Date Created'', Str ''2024-01-01 10:00:00''),
                   (''Type'', Str ''sms''), (''Attempts'', Num 0)])]\<rparr> \<noteq>
   to_dict_records
     \<lparr>columns = [''Recipient'', ''Message'', ''Language'', ''Date Created'', ''Type'', ''Attempts''],
      rows = [(0, [(''Recipient'', Str ''+254700000001''), (''Message'', Str ''Habari''),
                   (''Language'', Str ''Swahili''), (''Date Created'', Str ''2024-01-01 10:00:00''),
                   (''Type'', Str ''sms''), (''Attempts'', Num 0)])]\<rparr> \<and>
   save_then_load records_lib
     \<lparr>columns = [''Recipient'', ''Message'', ''Language'', ''Date Created'', ''Type'', ''Attempts''],
      rows = [(0, [(''Recipient'', Num 254700000001), (''Message'', Str ''Habari''),
                   (''Language'', Str ''Swahili''), (''Date Created'', Str ''2024-01-01 10:00:00''),
                   (''Type'', Str ''sms''), (''Attempts'', Num 0)])]\<rparr>
     OUTBOX_FILE Map.empty =
   Inr \<lparr>columns = [''Recipient'', ''Message'', ''Language'', ''Date Created'', ''Type'', ''Attempts''],
        rows = [(0, [(''Recipient'', Num 254700000001), (''Message'', Str ''Habari''),
                     (''Language'', Str ''Swahili''), (''Date Created'', Str ''2024-01-01 10:00:00''),
                     (''Type'', Str ''sms''), (''Attempts'', Num 0)])]\<rparr>"
  by (simp add: wf_frame_def save_then_load_def save_df_to_file_def load_df_from_file_def
      records_lib_def infer_types_def infer_column_def integer_like_def as_integer_def
      int_of_str_phone int_of_str_letters to_dict_records_def DataFrame_records_def
      ensure_columns_def getitem_def reindex_def row_get_def Let_def OUTBOX_FILE_def)

section \<open>Properties of the outbox\<close>

lemma dispatch_returns:
  "secrets E = Inr sec \<Longrightarrow> \<exists>ok info reqs'. dispatch E row reqs = (Inr (ok, info), reqs')"
  using get_twilio_client_secrets [of E sec]
  by (auto simp: dispatch_def safe_send_sms_def safe_make_call_def Let_def
      split: option.splits sum.splits response.splits)

lemma process_row_raised:
  assumes "attempts_of row = Inr a" and "a < m"
    and "map_of row ''Recipient'' = Some rc" and "map_of row ''Message'' = Some msg"
    and "dispatch E row (requests s) = (Inl e, reqs)"
  shows "process_row E m (idx, row) s = (Inl e, s\<lparr>requests := reqs\<rparr>)"
  using assms
  by (simp add: process_row_def attempts_of_def dispatch_def row_item_def row_get_def Let_def
      split: if_splits)

lemma row_item_get: "map_of row c = Some v \<Longrightarrow> row_item row c = Inr (row_get row c d)"
  by (simp add: row_item_def row_get_def)

lemma process_row_exhausted:
  "attempts_of row = Inr a \<Longrightarrow> m \<le> a \<Longrightarrow>
   process_row E m (idx, row) s = (Inr (idx, False, ''max attempts reached''), s)"
  by (simp add: process_row_def attempts_of_def)

lemma process_row_failed:
  assumes "attempts_of row = Inr a" and "a < m"
    and "map_of row ''Recipient'' = Some rc" and "map_of row ''Message'' = Some msg"
    and "dispatch E row (requests s) = (Inr (False, info), reqs)"
  shows "process_row E m (idx, row) s =
           (Inr (idx, False, info),
            s\<lparr>requests := reqs,
              outbox_df := at_set (outbox_df s) idx ''Attempts'' (Num (a + 1))\<rparr>)"
  using assms
  by (simp add: process_row_def attempts_of_def dispatch_def row_item_def row_get_def Let_def
      split: if_splits)

lemma process_row_sent:
  assumes "attempts_of row = Inr a" and "a < m"
    and "map_of row ''Recipient'' = Some rc" and "map_of row ''Message'' = Some msg"
    and "dispatch E row (requests s) = (Inr (True, info), reqs)"
    and "drop_label (at_set (outbox_df s) idx ''Attempts'' (Num (a + 1))) idx = Inr df"
  shows "process_row E m (idx, row) s =
           (Inr (idx, True, info),
            s\<lparr>requests := reqs,
              outbox_df := df,
              ticks := Suc (ticks s),
              message_logs := concat_ignore_index (message_logs s)
                 (DataFrame_records [sent_row row (clock E (ticks s))])\<rparr>)"
  using assms
  by (simp add: process_row_def attempts_of_def dispatch_def row_item_def row_get_def Let_def
      now_def sent_row_def split: if_splits)

lemma process_row_label: "process_row E m (idx, row) s = (Inr r, s1) \<Longrightarrow> fst r = idx"
  by (auto simp: process_row_def Let_def now_def
      split: sum.splits if_splits prod.splits)

lemma filter_label_map:
  "(\<And>r. f j r = r) \<Longrightarrow>
   filter (\<lambda>(i, r). i = j) (map (\<lambda>(i, r). (i, f i r)) xs) = filter (\<lambda>(i, r). i = j) xs"
  by (induction xs) auto

lemma at_set_other:
  assumes "c \<in> set (columns df)" and "j \<noteq> idx"
  shows "rows_at j (at_set df idx c v) = rows_at j df"
proof -
  have "filter (\<lambda>(i, r). i = j)
          (map (\<lambda>(i, r). (i, if i = idx then AList.update c v r else r)) (rows df))
        = filter (\<lambda>(i, r). i = j) (rows df)"
    using assms(2) by (intro filter_label_map) simp
  with assms show ?thesis
    by (simp add: at_set_def rows_at_def Let_def)
qed

lemma at_set_columns: "c \<in> set (columns df) \<Longrightarrow> columns (at_set df idx c v) = columns df"
  by (simp add: at_set_def Let_def)

lemma at_set_present:
  assumes "c \<in> set (columns df)" and "idx \<in> fst ` set (rows df)"
  shows "rows (at_set df idx c v) =
         map (\<lambda>(i, r). (i, if i = idx then AList.update c v r else r)) (rows df)"
  using assms by (simp add: at_set_def Let_def)

lemma drop_label_other:
  "drop_label df idx = Inr df1 \<Longrightarrow> j \<noteq> idx \<Longrightarrow> rows_at j df1 = rows_at j df"
  by (auto simp: drop_label_def rows_at_def split: if_splits intro: filter_cong)

lemma drop_label_columns: "drop_label df idx = Inr df1 \<Longrightarrow> columns df1 = columns df"
  by (auto simp: drop_label_def split: if_splits)

lemma drop_label_gone: "drop_label df idx = Inr df1 \<Longrightarrow> rows_at idx df1 = []"
  by (auto simp: drop_label_def rows_at_def filter_empty_conv split: if_splits)

text \<open>What one pass of the loop body can do to the outbox table.\<close>

lemma process_row_outbox:
  assumes "process_row E m (idx, row) s = (res, s1)"
  shows "outbox_df s1 = outbox_df s \<or>
         (\<exists>v. outbox_df s1 = at_set (outbox_df s) idx ''Attempts'' (Num v)) \<or>
         (\<exists>v. drop_label (at_set (outbox_df s) idx ''Attempts'' (Num v)) idx =
                Inr (outbox_df s1))"
  using assms
  by (auto simp: process_row_def Let_def now_def
      split: sum.splits if_splits prod.splits)

lemma process_row_frame:
  assumes "process_row E m (idx, row) s = (res, s1)"
    and "''Attempts'' \<in> set (columns (outbox_df s))" and "j \<noteq> idx"
  shows "rows_at j (outbox_df s1) = rows_at j (outbox_df s) \<and>
         columns (outbox_df s1) = columns (outbox_df s)"
  using process_row_outbox [OF assms(1)] assms(2,3)
  by (auto simp: at_set_other at_set_columns dest: drop_label_other drop_label_columns)

lemma outbox_loop_frame:
  assumes "outbox_loop E m xs res s = (out, s1)"
    and "''Attempts'' \<in> set (columns (outbox_df s))" and "j \<notin> fst ` set xs"
  shows "rows_at j (outbox_df s1) = rows_at j (outbox_df s) \<and>
         columns (outbox_df s1) = columns (outbox_df s)"
  using assms
proof (induction xs arbitrary: res s)
  case Nil
  then show ?case by simp
next
  case (Cons ir xs)
  obtain idx row where ir: "ir = (idx, row)" by (cases ir)
  obtain r s2 where step: "process_row E m (idx, row) s = (r, s2)"
    by (cases "process_row E m (idx, row) s")
  from Cons.prems(3) have j: "j \<noteq> idx" "j \<notin> fst ` set xs" by (auto simp: ir)
  note fr = process_row_frame [OF step Cons.prems(2) j(1)]
  show ?case
  proof (cases r)
    case (Inl e)
    with Cons.prems(1) step fr show ?thesis by (simp add: ir)
  next
    case (Inr a)
    with Cons.prems(1) step have "outbox_loop E m xs (res @ [a]) s2 = (out, s1)"
      by (simp add: ir)
    from Cons.IH [OF this _ j(2)] fr Cons.prems(2) show ?thesis by simp
  qed
qed

lemma outbox_loop_results:
  "outbox_loop E m xs res s = (Inr res1, s1) \<Longrightarrow>
   \<exists>new. res1 = res @ new \<and> map fst new = map fst xs"
proof (induction xs arbitrary: res s)
  case Nil
  then show ?case by simp
next
  case (Cons ir xs)
  obtain idx row where ir: "ir = (idx, row)" by (cases ir)
  from Cons.prems obtain r s2 where step: "process_row E m (idx, row) s = (Inr r, s2)"
    and rest: "outbox_loop E m xs (res @ [r]) s2 = (Inr res1, s1)"
    by (auto simp: ir split: prod.splits sum.splits)
  from Cons.IH [OF rest] obtain new where "res1 = (res @ [r]) @ new" "map fst new = map fst xs"
    by blast
  with process_row_label [OF step] show ?case
    by (intro exI [of _ "r # new"]) (simp add: ir)
qed

lemma at_set_labels:
  "c \<in> set (columns df) \<Longrightarrow> idx \<in> fst ` set (rows df) \<Longrightarrow>
   map fst (rows (at_set df idx c v)) = map fst (rows df)"
  by (simp add: at_set_present comp_def case_prod_unfold)

lemma drop_label_at_set:
  assumes "c \<in> set (columns df)" and "idx \<in> fst ` set (rows df)"
  shows "drop_label (at_set df idx c v) idx =
         Inr ((at_set df idx c v)\<lparr>rows := filter (\<lambda>(i, r). i \<noteq> idx) (rows (at_set df idx c v))\<rparr>)"
proof -
  have "fst ` set (rows (at_set df idx c v)) = fst ` set (rows df)"
    using at_set_labels [OF assms, of v] by (metis list.set_map)
  with assms(2) show ?thesis by (simp add: drop_label_def)
qed

lemma process_row_cases:
  assumes "sendable row" and "attempts_of row = Inr a"
    and "''Attempts'' \<in> set (columns (outbox_df s))"
    and "idx \<in> fst ` set (rows (outbox_df s))"
  obtains
    (exhausted) "m \<le> a"
      "process_row E m (idx, row) s = (Inr (idx, False, ''max attempts reached''), s)"
  | (failed) info reqs where "a < m"
      "dispatch E row (requests s) = (Inr (False, info), reqs)"
      "process_row E m (idx, row) s =
         (Inr (idx, False, info),
          s\<lparr>requests := reqs,
            outbox_df := at_set (outbox_df s) idx ''Attempts'' (Num (a + 1))\<rparr>)"
  | (sent) info reqs where "a < m"
      "dispatch E row (requests s) = (Inr (True, info), reqs)"
      "process_row E m (idx, row) s =
         (Inr (idx, True, info),
          s\<lparr>requests := reqs,
            outbox_df := (at_set (outbox_df s) idx ''Attempts'' (Num (a + 1)))
               \<lparr>rows := filter (\<lambda>(i, r). i \<noteq> idx)
                          (rows (at_set (outbox_df s) idx ''Attempts'' (Num (a + 1))))\<rparr>,
            ticks := Suc (ticks s),
            message_logs := concat_ignore_index (message_logs s)
               (DataFrame_records [sent_row row (clock E (ticks s))])\<rparr>)"
  | (raised) e reqs where "a < m"
      "dispatch E row (requests s) = (Inl e, reqs)"
      "process_row E m (idx, row) s = (Inl e, s\<lparr>requests := reqs\<rparr>)"
proof (cases "m \<le> a")
  case True
  with exhausted process_row_exhausted [OF assms(2)] show ?thesis by blast
next
  case False
  then have lt: "a < m" by simp
  from assms(1) obtain rc msg where
    keys: "map_of row ''Recipient'' = Some rc" "map_of row ''Message'' = Some msg"
    by (auto simp: sendable_def)
  obtain out reqs where d: "dispatch E row (requests s) = (out, reqs)"
    by (cases "dispatch E row (requests s)")
  show ?thesis
  proof (cases out)
    case (Inl e)
    with d have de: "dispatch E row (requests s) = (Inl e, reqs)" by simp
    show ?thesis
      by (rule raised [OF lt de process_row_raised [OF assms(2) lt keys de]])
  next
    case (Inr r)
    obtain ok info where r: "r = (ok, info)" by (cases r)
    show ?thesis
    proof (cases ok)
      case True
      with d Inr r have d1: "dispatch E row (requests s) = (Inr (True, info), reqs)" by simp
      show ?thesis
        by (rule sent [OF lt d1
              process_row_sent [OF assms(2) lt keys d1 drop_label_at_set [OF assms(3,4)]]])
    next
      case False
      with d Inr r have d0: "dispatch E row (requests s) = (Inr (False, info), reqs)" by simp
      show ?thesis
        by (rule failed [OF lt d0 process_row_failed [OF assms(2) lt keys d0]])
    qed
  qed
qed

lemma outbox_loop_append:
  "outbox_loop E m (xs @ ys) res s =
     (case outbox_loop E m xs res s of
        (Inl e, s1) \<Rightarrow> (Inl e, s1)
      | (Inr res1, s1) \<Rightarrow> outbox_loop E m ys res1 s1)"
  by (induction xs arbitrary: res s) (auto split: prod.splits sum.splits)

lemma rows_at_present: "rows_at j df \<noteq> [] \<longleftrightarrow> j \<in> fst ` set (rows df)"
  by (force simp: rows_at_def filter_empty_conv)

lemma process_row_returns:
  assumes "sendable row" and "''Attempts'' \<in> set (columns (outbox_df s))"
    and "idx \<in> fst ` set (rows (outbox_df s))" and "secrets E = Inr sec"
  shows "\<exists>r s1. process_row E m (idx, row) s = (Inr r, s1)"
proof -
  from assms(1) obtain a where a: "attempts_of row = Inr a"
    by (cases "attempts_of row") (auto simp: sendable_def)
  show ?thesis
    using dispatch_returns [OF assms(4), of row "requests s"]
    by (rule_tac process_row_cases [OF assms(1) a assms(2,3), of m E]) auto
qed

lemma outbox_loop_returns:
  assumes "''Attempts'' \<in> set (columns (outbox_df s))" and "distinct (map fst xs)"
    and "\<forall>(i, r) \<in> set xs. sendable r \<and> i \<in> fst ` set (rows (outbox_df s))"
    and sec: "secrets E = Inr sec"
  shows "\<exists>res1 s1. outbox_loop E m xs res s = (Inr res1, s1)"
  using assms(1-3)
proof (induction xs arbitrary: res s)
  case Nil
  then show ?case by simp
next
  case (Cons ir xs)
  obtain idx row where ir: "ir = (idx, row)" by (cases ir)
  from Cons.prems(3) have here: "sendable row" "idx \<in> fst ` set (rows (outbox_df s))"
    by (auto simp: ir)
  from process_row_returns [OF here(1) Cons.prems(1) here(2) sec]
  obtain r s2 where step: "process_row E m (idx, row) s = (Inr r, s2)" by blast
  have cols: "''Attempts'' \<in> set (columns (outbox_df s2))"
    using process_row_outbox [OF step] Cons.prems(1)
    by (auto simp: at_set_columns dest: drop_label_columns)
  have rest: "\<forall>(i, r) \<in> set xs. sendable r \<and> i \<in> fst ` set (rows (outbox_df s2))"
  proof (clarify, intro conjI)
    fix i r assume in_xs: "(i, r) \<in> set xs"
    with Cons.prems(3) show "sendable r" by auto
    from in_xs Cons.prems(2) have "i \<noteq> idx" by (force simp: ir)
    from process_row_frame [OF step Cons.prems(1) this]
    have "rows_at i (outbox_df s2) = rows_at i (outbox_df s)" by simp
    moreover from in_xs Cons.prems(3) have "i \<in> fst ` set (rows (outbox_df s))" by auto
    ultimately show "i \<in> fst ` set (rows (outbox_df s2))"
      by (metis rows_at_present)
  qed
  from Cons.prems(2) have "distinct (map fst xs)" by simp
  from Cons.IH [OF cols this rest, of "res @ [r]"] step show ?case
    by (simp add: ir)
qed

lemma DataFrame_records_sent_row:
  "DataFrame_records [sent_row row d] = \<lparr>columns = log_columns, rows = [(0, sent_row row d)]\<rparr>"
  by (simp add: DataFrame_records_def sent_row_def log_columns_def reindex_def row_get_def)

lemma map_fst_sent_row: "map fst (sent_row row d) = log_columns"
  by (simp add: sent_row_def log_columns_def)

lemma distinct_log_columns: "distinct log_columns"
  by (simp add: log_columns_def)

lemma concat_sent_row:
  assumes "log_ok ml"
  shows "concat_ignore_index ml (DataFrame_records [sent_row row d]) =
           \<lparr>columns = log_columns, rows = enumerate 0 (to_dict_records ml @ [sent_row row d])\<rparr>"
proof -
  from assms consider (cols) "wf_frame ml" "columns ml = log_columns" | (none) "ml = DataFrame []"
    by (auto simp: log_ok_def)
  then show ?thesis
  proof cases
    case cols
    then have keys: "list_all (\<lambda>r. map fst r = log_columns) (to_dict_records ml @ [sent_row row d])"
      using wf_frame_records [of ml] by (simp add: map_fst_sent_row)
    have "map (\<lambda>(i, r). reindex log_columns r) (rows ml @ [(0, sent_row row d)])
          = map (reindex log_columns) (to_dict_records ml @ [sent_row row d])"
      by (simp add: to_dict_records_def case_prod_unfold)
    also have "\<dots> = to_dict_records ml @ [sent_row row d]"
      using keys by (intro map_reindex_same_keys distinct_log_columns)
    finally show ?thesis
      using cols(2)
      by (simp add: concat_ignore_index_def DataFrame_records_sent_row Let_def)
  next
    case none
    have "reindex log_columns (sent_row row d) = sent_row row d"
      using reindex_own_keys [of "sent_row row d"]
      by (simp add: map_fst_sent_row distinct_log_columns)
    then show ?thesis
      by (simp add: none concat_ignore_index_def DataFrame_records_sent_row DataFrame_def
          to_dict_records_def)
  qed
qed

lemma log_ok_concat_sent_row:
  assumes "log_ok ml"
  shows "log_ok (concat_ignore_index ml (DataFrame_records [sent_row row d]))"
proof -
  from assms have "list_all (\<lambda>r. map fst r = log_columns) (to_dict_records ml)"
    using wf_frame_records [of ml]
    by (auto simp: log_ok_def DataFrame_def to_dict_records_def)
  then show ?thesis
    by (auto simp: concat_sent_row [OF assms] log_ok_def wf_frame_def distinct_log_columns
        map_fst_sent_row list_all_iff dest!: enumerate_snd_in)
qed

lemma process_row_log:
  "process_row E m (idx, row) s = (Inr (i, ok, info), s1) \<Longrightarrow>
   message_logs s1 =
     (if ok then concat_ignore_index (message_logs s)
                   (DataFrame_records [sent_row row (clock E (ticks s))])
      else message_logs s)"
  by (auto simp: process_row_def Let_def now_def sent_row_def row_item_def row_get_def
      split: sum.splits if_splits prod.splits option.splits)

lemma outbox_loop_log:
  assumes "outbox_loop E m xs res s = (Inr res1, s1)" and "log_ok (message_logs s)"
  shows "log_ok (message_logs s1) \<and>
         (\<exists>new later. res1 = res @ new \<and>
            to_dict_records (message_logs s1) = to_dict_records (message_logs s) @ later \<and>
            length later = length (filter (\<lambda>(i, ok, info). ok) new))"
  using assms
proof (induction xs arbitrary: res s)
  case Nil
  then show ?case by simp
next
  case (Cons ir xs)
  obtain idx row where ir: "ir = (idx, row)" by (cases ir)
  from Cons.prems(1) obtain r s2 where step: "process_row E m (idx, row) s = (Inr r, s2)"
    and rest: "outbox_loop E m xs (res @ [r]) s2 = (Inr res1, s1)"
    by (auto simp: ir split: prod.splits sum.splits)
  obtain i ok info where r: "r = (i, ok, info)" by (cases r)
  note log = process_row_log [OF step [unfolded r]]
  have ok2: "log_ok (message_logs s2)"
    using log Cons.prems(2) by (simp add: log_ok_concat_sent_row)
  have grow: "to_dict_records (message_logs s2) =
              to_dict_records (message_logs s) @
                (if ok then [sent_row row (clock E (ticks s))] else [])"
    using log
    by (simp add: concat_sent_row [OF Cons.prems(2)] to_dict_records_def)
  from Cons.IH [OF rest ok2] obtain new later where
    "log_ok (message_logs s1)" "res1 = (res @ [r]) @ new"
    "to_dict_records (message_logs s1) = to_dict_records (message_logs s2) @ later"
    "length later = length (filter (\<lambda>(i, ok, info). ok) new)"
    by blast
  with grow r show ?case
    by (intro conjI exI [of _ "r # new"]
        exI [of _ "(if ok then [sent_row row (clock E (ticks s))] else []) @ later"]) auto
qed

lemma save_table_tables:
  "save_table L df path s = (r, s1) \<Longrightarrow>
   outbox_df s1 = outbox_df s \<and> message_logs s1 = message_logs s \<and>
   reminders_df s1 = reminders_df s \<and> partners_df s1 = partners_df s \<and>
   feedback_df s1 = feedback_df s \<and> requests s1 = requests s \<and> ticks s1 = ticks s"
  by (auto simp: save_table_def split: prod.splits)

lemma process_outbox_loop:
  assumes "process_outbox E L m s = (Inr results, s1)" and "\<not> empty_df (outbox_df s)"
  shows "\<exists>s2. outbox_loop E m (rows (outbox_df s)) [] s = (Inr results, s2) \<and>
              outbox_df s1 = outbox_df s2 \<and> message_logs s1 = message_logs s2 \<and>
              requests s1 = requests s2 \<and> ticks s1 = ticks s2"
  using assms
  by (auto simp: process_outbox_def split: prod.splits sum.splits dest!: save_table_tables)

lemma outbox_ok_sendable:
  assumes "outbox_ok df" and "(i, r) \<in> set (rows df)"
  shows "sendable r"
proof -
  from assms have keys: "map fst r = outbox_columns" and att: "\<not> isl (attempts_of r)"
    by (auto simp: outbox_ok_def wf_frame_def list_all_iff)
  from keys have "fst ` set r = set outbox_columns"
    by (metis list.set_map)
  then have "''Recipient'' \<in> fst ` set r" "''Message'' \<in> fst ` set r"
    by (simp_all add: outbox_columns_def)
  with att show ?thesis
    by (simp add: sendable_def map_of_eq_None_iff)
qed

lemma outbox_ok_columns: "outbox_ok df \<Longrightarrow> ''Attempts'' \<in> set (columns df) \<and> columns df \<noteq> []"
  by (simp add: outbox_ok_def outbox_columns_def)

lemma rows_at_split:
  assumes "distinct (map fst (rows df))" and "rows df = pre @ (idx, row) # post"
  shows "rows_at idx df = [(idx, row)]" and "idx \<notin> fst ` set pre" and "idx \<notin> fst ` set post"
proof -
  from assms show pre: "idx \<notin> fst ` set pre" and post: "idx \<notin> fst ` set post"
    by auto
  have "filter (\<lambda>(i, r). i = idx) pre = []" "filter (\<lambda>(i, r). i = idx) post = []"
    using pre post by (force simp: filter_empty_conv)+
  then show "rows_at idx df = [(idx, row)]"
    by (simp add: rows_at_def assms(2))
qed

text \<open>The state in which the loop reaches an entry, and what follows it.\<close>

lemma outbox_loop_reach:
  assumes ok: "outbox_ok (outbox_df s)"
    and split: "rows (outbox_df s) = pre @ (idx, row) # post"
    and pre: "outbox_loop E m pre [] s = (Inr res1, s1)"
    and ret: "process_outbox E L m s = (Inr results, s')"
  shows "\<exists>sf. outbox_loop E m ((idx, row) # post) res1 s1 = (Inr results, sf) \<and>
              outbox_df s' = outbox_df sf \<and> message_logs s' = message_logs sf \<and>
              requests s' = requests sf"
    and "rows_at idx (outbox_df s1) = [(idx, row)]"
    and "columns (outbox_df s1) = columns (outbox_df s)"
    and "length res1 = length pre"
proof -
  from ok split have ne: "\<not> empty_df (outbox_df s)"
    by (simp add: empty_df_def outbox_ok_def outbox_columns_def)
  from process_outbox_loop [OF ret ne] split pre
  show "\<exists>sf. outbox_loop E m ((idx, row) # post) res1 s1 = (Inr results, sf) \<and>
              outbox_df s' = outbox_df sf \<and> message_logs s' = message_logs sf \<and>
              requests s' = requests sf"
    by (auto simp: outbox_loop_append)
  from ok have d: "distinct (map fst (rows (outbox_df s)))" by (simp add: outbox_ok_def)
  note sp = rows_at_split [OF d split]
  from outbox_loop_frame [OF pre _ sp(2)] outbox_ok_columns [OF ok] sp(1)
  show "rows_at idx (outbox_df s1) = [(idx, row)]"
    and "columns (outbox_df s1) = columns (outbox_df s)"
    by simp_all
  from outbox_loop_results [OF pre] show "length res1 = length pre"
    by (auto dest: map_eq_imp_length_eq)
qed

lemma outbox_entry_sent:
  assumes ok: "outbox_ok (outbox_df s)" and log: "log_ok (message_logs s)"
    and split: "rows (outbox_df s) = pre @ (idx, row) # post"
    and att: "attempts_of row = Inr a" and lt: "a < m"
    and pre: "outbox_loop E m pre [] s = (Inr res1, s1)"
    and disp: "dispatch E row (requests s1) = (Inr (True, info), reqs)"
    and ret: "process_outbox E L m s = (Inr results, s')"
  shows "(\<exists>res2 later.
            results = res1 @ (idx, True, info) # res2 \<and> length res1 = length pre \<and>
            to_dict_records (message_logs s') =
              to_dict_records (message_logs s1) @ sent_row row (clock E (ticks s1)) # later \<and>
            length later = length (filter (\<lambda>(i, ok, info). ok) res2)) \<and>
         map fst results = map fst (rows (outbox_df s)) \<and>
         idx \<notin> fst ` set (rows (outbox_df s'))"
proof -
  from outbox_loop_reach [OF ok split pre ret] obtain sf where
    loop: "outbox_loop E m ((idx, row) # post) res1 s1 = (Inr results, sf)"
    and tabs: "outbox_df s' = outbox_df sf" "message_logs s' = message_logs sf"
    and here: "rows_at idx (outbox_df s1) = [(idx, row)]"
    and cols: "columns (outbox_df s1) = columns (outbox_df s)"
    and len: "length res1 = length pre"
    by blast
  from ok have d: "distinct (map fst (rows (outbox_df s)))" by (simp add: outbox_ok_def)
  note sp = rows_at_split [OF d split]
  from split have "(idx, row) \<in> set (rows (outbox_df s))" by simp
  note snd = outbox_ok_sendable [OF ok this]
  from cols outbox_ok_columns [OF ok]
  have c1: "''Attempts'' \<in> set (columns (outbox_df s1))" by simp
  from here have p1: "idx \<in> fst ` set (rows (outbox_df s1))"
    by (metis rows_at_present list.distinct(1))
  let ?df = "at_set (outbox_df s1) idx ''Attempts'' (Num (a + 1))"
  let ?s2 = "s1\<lparr>requests := reqs,
                outbox_df := ?df\<lparr>rows := filter (\<lambda>(i, r). i \<noteq> idx) (rows ?df)\<rparr>,
                ticks := Suc (ticks s1),
                message_logs := concat_ignore_index (message_logs s1)
                   (DataFrame_records [sent_row row (clock E (ticks s1))])\<rparr>"
  have step: "process_row E m (idx, row) s1 = (Inr (idx, True, info), ?s2)"
    by (rule process_row_cases [OF snd att c1 p1, of m E]) (use lt disp in auto)
  with loop have rest: "outbox_loop E m post (res1 @ [(idx, True, info)]) ?s2 = (Inr results, sf)"
    by simp
  from outbox_loop_log [OF pre log] have log1: "log_ok (message_logs s1)" by simp
  have log2: "log_ok (message_logs ?s2)"
    using log1 by (simp add: log_ok_concat_sent_row)
  from outbox_loop_log [OF rest log2] obtain res2 later where
    res: "results = (res1 @ [(idx, True, info)]) @ res2"
    and recs: "to_dict_records (message_logs sf) = to_dict_records (message_logs ?s2) @ later"
    and cnt: "length later = length (filter (\<lambda>(i, ok, info). ok) res2)"
    by blast
  have recs2: "to_dict_records (message_logs ?s2) =
               to_dict_records (message_logs s1) @ [sent_row row (clock E (ticks s1))]"
    by (simp add: concat_sent_row [OF log1] to_dict_records_def)
  have c2: "''Attempts'' \<in> set (columns (outbox_df ?s2))"
    using c1 by (simp add: at_set_columns)
  have "rows_at idx (outbox_df ?s2) = []"
    by (auto simp: rows_at_def filter_empty_conv)
  with outbox_loop_frame [OF rest c2 sp(3)] have "rows_at idx (outbox_df sf) = []"
    by simp
  then have gone: "idx \<notin> fst ` set (rows (outbox_df s'))"
    using rows_at_present [of idx "outbox_df sf"] by (simp add: tabs)
  from outbox_loop_results [OF rest] outbox_loop_results [OF pre]
  have labels: "map fst results = map fst (rows (outbox_df s))"
    by (auto simp: split)
  from res recs cnt recs2 len labels gone tabs show ?thesis
    by auto
qed

text \<open>
  C2.  When the drain returns: for an entry whose attempt count has reached
  \<open>max_attempts\<close>, the loop body returns \<open>(idx, False, "max attempts reached")\<close> and
  leaves the whole state, and so the log of requests, as it was in the state \<open>s1\<close> in
  which the loop reaches the entry; this is the entry's result, and after the drain the
  row is in the outbox unchanged, with the same attempt count.
\<close>

theorem process_outbox_exhausted:
  assumes ok: "outbox_ok (outbox_df s)"
    and split: "rows (outbox_df s) = pre @ (idx, row) # post"
    and att: "attempts_of row = Inr a" and ge: "m \<le> a"
    and pre: "outbox_loop E m pre [] s = (Inr res1, s1)"
    and ret: "process_outbox E L m s = (Inr results, s')"
  shows "process_row E m (idx, row) s1 = (Inr (idx, False, ''max attempts reached''), s1) \<and>
         (\<exists>res2. results = res1 @ (idx, False, ''max attempts reached'') # res2 \<and>
                 length res1 = length pre) \<and>
         rows_at idx (outbox_df s') = [(idx, row)]"
proof -
  from outbox_loop_reach [OF ok split pre ret] obtain sf where
    loop: "outbox_loop E m ((idx, row) # post) res1 s1 = (Inr results, sf)"
    and tabs: "outbox_df s' = outbox_df sf"
    and here: "rows_at idx (outbox_df s1) = [(idx, row)]"
    and cols: "columns (outbox_df s1) = columns (outbox_df s)"
    and len: "length res1 = length pre"
    by blast
  from ok have d: "distinct (map fst (rows (outbox_df s)))" by (simp add: outbox_ok_def)
  note sp = rows_at_split [OF d split]
  note step = process_row_exhausted [OF att ge, of E idx s1]
  with loop have rest:
    "outbox_loop E m post (res1 @ [(idx, False, ''max attempts reached'')]) s1 = (Inr results, sf)"
    by simp
  from cols outbox_ok_columns [OF ok]
  have c1: "''Attempts'' \<in> set (columns (outbox_df s1))" by simp
  from outbox_loop_frame [OF rest c1 sp(3)] here tabs
  have stays: "rows_at idx (outbox_df s') = [(idx, row)]" by simp
  from outbox_loop_results [OF rest] obtain res2 where
    "results = (res1 @ [(idx, False, ''max attempts reached'')]) @ res2" by blast
  with step stays len att show ?thesis by simp
qed











lemma add_to_outbox_tables:
  assumes "add_to_outbox E L rc msg lang ty s = (out, s1)"
  shows "outbox_df s1 = concat_ignore_index (outbox_df s)
           (DataFrame_records [queued_row rc msg lang (clock E (ticks s)) ty])"
    and "message_logs s1 = message_logs s" and "requests s1 = requests s"
    and "ticks s1 = Suc (ticks s)" and "reminders_df s1 = reminders_df s"
    and "partners_df s1 = partners_df s" and "feedback_df s1 = feedback_df s"
  using assms
  by (auto simp: add_to_outbox_def now_def Let_def queued_row_def dest!: save_table_tables)

lemma concat_first_queued_row:
  assumes "rows df = []" and "columns df = outbox_columns \<or> columns df = []"
  shows "concat_ignore_index df (DataFrame_records [queued_row rc msg lang d ty]) =
           \<lparr>columns = outbox_columns, rows = [(0, queued_row rc msg lang d ty)]\<rparr>"
  using assms
  by (auto simp: concat_ignore_index_def DataFrame_records_def queued_row_def Let_def
      outbox_columns_def reindex_def row_get_def)

lemma dispatch_succeeds:
  assumes "get_twilio_client E = Inr (Some c)" and "from_number E = Inr f"
    and "\<forall>reqs req. \<exists>sid. provider E reqs req = Resource sid"
  shows "\<exists>info reqs1. dispatch E row reqs = (Inr (True, info), reqs1)"
proof -
  obtain sid1 where "provider E reqs
       (messages_create (row_get row ''Message'' NaN) f (row_get row ''Recipient'' NaN)) = Resource sid1"
    using assms(3) by blast
  moreover obtain sid2 where "provider E reqs
       (calls_create (''<Response><Say>'' @ py_str (row_get row ''Message'' NaN) @ ''</Say></Response>'')
          f (row_get row ''Recipient'' NaN)) = Resource sid2"
    using assms(3) by blast
  ultimately show ?thesis
    using assms(1,2)
    by (simp add: dispatch_def safe_send_sms_def safe_make_call_def Let_def)
qed

lemma enqueue_then_drain:
  assumes empty: "rows (outbox_df s) = []"
      "columns (outbox_df s) = outbox_columns \<or> columns (outbox_df s) = []"
    and log: "log_ok (message_logs s)"
    and add: "add_to_outbox E L rc msg lang ty s = (Inr (), s1)"
    and client: "get_twilio_client E = Inr (Some c)" "from_number E = Inr f"
    and prov: "\<forall>reqs req. \<exists>sid. provider E reqs req = Resource sid"
    and pos: "0 < m"
    and ret: "process_outbox E L m s1 = (Inr results, s2)"
  shows "rows (outbox_df s2) = [] \<and> (\<exists>info. results = [(0, True, info)]) \<and>
         to_dict_records (message_logs s2) =
           to_dict_records (message_logs s) @
             [[(''Recipient'', Str rc), (''Message'', Str msg), (''Language'', Str lang),
               (''Date Sent'', Str (clock E (Suc (ticks s)))), (''Type'', Str ty),
               (''Status'', Str ''Sent'')]]"
proof -
  let ?row = "queued_row rc msg lang (clock E (ticks s)) ty"
  note t = add_to_outbox_tables [OF add]
  have ob: "outbox_df s1 = \<lparr>columns = outbox_columns, rows = [(0, ?row)]\<rparr>"
    by (simp add: t(1) concat_first_queued_row [OF empty])
  have att: "attempts_of ?row = Inr 0"
    by (simp add: attempts_of_def queued_row_def row_get_def)
  have snd: "sendable ?row"
    by (simp add: sendable_def att) (simp add: queued_row_def)
  have ne: "\<not> empty_df (outbox_df s1)"
    by (simp add: ob empty_df_def outbox_columns_def)
  from process_outbox_loop [OF ret ne] obtain sf where
    loop: "outbox_loop E m [(0, ?row)] [] s1 = (Inr results, sf)"
    and tabs: "outbox_df s2 = outbox_df sf" "message_logs s2 = message_logs sf"
    by (auto simp: ob)
  obtain info reqs where d: "dispatch E ?row (requests s1) = (Inr (True, info), reqs)"
    using dispatch_succeeds [OF client prov] by blast
  have c1: "''Attempts'' \<in> set (columns (outbox_df s1))"
    by (simp add: ob outbox_columns_def)
  have p1: "0 \<in> fst ` set (rows (outbox_df s1))"
    by (simp add: ob)
  let ?df = "at_set (outbox_df s1) 0 ''Attempts'' (Num (0 + 1))"
  let ?sf = "s1\<lparr>requests := reqs,
                outbox_df := ?df\<lparr>rows := filter (\<lambda>(i, r). i \<noteq> 0) (rows ?df)\<rparr>,
                ticks := Suc (ticks s1),
                message_logs := concat_ignore_index (message_logs s1)
                   (DataFrame_records [sent_row ?row (clock E (ticks s1))])\<rparr>"
  have step: "process_row E m (0, ?row) s1 = (Inr (0, True, info), ?sf)"
    by (rule process_row_cases [OF snd att c1 p1, of m E]) (use pos d in auto)
  with loop have res: "results = [(0, True, info)]" and sf: "sf = ?sf"
    by simp_all
  have "rows ?df = map (\<lambda>(i, r). (i, if i = 0 then AList.update ''Attempts'' (Num (0 + 1)) r else r))
                     (rows (outbox_df s1))"
    by (rule at_set_present [OF c1 p1])
  then have rows: "rows (outbox_df s2) = []"
    by (simp add: tabs sf ob)
  from log t(2) have log1: "log_ok (message_logs s1)" by simp
  have "to_dict_records (message_logs s2) =
        to_dict_records (message_logs s1) @ [sent_row ?row (clock E (ticks s1))]"
    by (simp add: tabs sf concat_sent_row [OF log1] to_dict_records_def)
  with rows res t show ?thesis
    by (simp add: sent_row_def queued_row_def row_get_def)
qed

lemma save_table_returns:
  "written L df path \<noteq> None \<Longrightarrow> \<exists>s1. save_table L df path s = (Inr (), s1)"
  using save_written [of L df path _ "files s"]
  by (cases "save_df_to_file L df path (files s)") (auto simp: save_table_def)

lemma process_outbox_returns:
  assumes "outbox_ok (outbox_df s)" and "\<forall>df path. written L df path \<noteq> None"
    and "secrets E = Inr sec"
  shows "\<exists>results s1. process_outbox E L m s = (Inr results, s1)"
proof (cases "empty_df (outbox_df s)")
  case True
  then show ?thesis by (simp add: process_outbox_def)
next
  case False
  from assms(1) have d: "distinct (map fst (rows (outbox_df s)))" by (simp add: outbox_ok_def)
  have "\<forall>(i, r) \<in> set (rows (outbox_df s)).
          sendable r \<and> i \<in> fst ` set (rows (outbox_df s))"
    using outbox_ok_sendable [OF assms(1)] by force
  from outbox_loop_returns [OF _ d this assms(3), of m "[]"] outbox_ok_columns [OF assms(1)]
  obtain out results s2 where loop: "outbox_loop E m (rows (outbox_df s)) [] s = (out, s2)"
    and out: "out = Inr results" by auto
  from assms(2) have "written L (outbox_df s2) OUTBOX_FILE \<noteq> None" by simp
  from save_table_returns [OF this, of s2] obtain s3 where
    s3: "save_table L (outbox_df s2) OUTBOX_FILE s2 = (Inr (), s3)" by blast
  from assms(2) have "written L (message_logs s3) MESSAGES_FILE \<noteq> None" by simp
  from save_table_returns [OF this, of s3] obtain s4 where
    "save_table L (message_logs s3) MESSAGES_FILE s3 = (Inr (), s4)" by blast
  with False loop out s3 show ?thesis
    by (simp add: process_outbox_def)
qed

lemmas frame_simps = DataFrame_def DataFrame_records_def concat_ignore_index_def
  to_dict_records_def reindex_def row_get_def row_item_def at_set_def drop_label_def
  empty_df_def outbox_columns_def log_columns_def

lemmas outbox_simps = add_to_outbox_def process_outbox_def process_row_def now_def
  save_table_def save_df_to_file_def records_lib_def attempts_of_def dispatch_def
  safe_send_sms_def safe_make_call_def getattr_sid_def
  OUTBOX_FILE_def MESSAGES_FILE_def int_of_str_def

text \<open>
  C1.  When the drain returns: an entry below \<open>max_attempts\<close> whose send succeeds in the
  state \<open>s1\<close> in which the loop reaches it gets the result \<open>(idx, True, info)\<close> at its
  position, its label is no longer in the outbox, and the message log is the log at
  \<open>s1\<close>, then the one "Sent" record of the entry, then one record for each later
  success.  In particular, queueing a message in a session whose outbox has no rows and
  draining, with a Twilio client and a service that creates every resource, leaves the
  outbox without rows, returns the single result \<open>(0, True, info)\<close> and adds exactly one
  record, with status "Sent", to the message log.
\<close>

theorem process_outbox_sent:
  "(outbox_ok (outbox_df s) \<and> log_ok (message_logs s) \<and>
    rows (outbox_df s) = pre @ (idx, row) # post \<and>
    attempts_of row = Inr a \<and> a < m \<and>
    outbox_loop E m pre [] s = (Inr res1, s1) \<and>
    dispatch E row (requests s1) = (Inr (True, info), reqs) \<and>
    process_outbox E L m s = (Inr results, s')
    \<longrightarrow>
    (\<exists>res2 later.
        results = res1 @ (idx, True, info) # res2 \<and> length res1 = length pre \<and>
        to_dict_records (message_logs s') =
          to_dict_records (message_logs s1) @ sent_row row (clock E (ticks s1)) # later \<and>
        length later = length (filter (\<lambda>(i, ok, info). ok) res2)) \<and>
    map fst results = map fst (rows (outbox_df s)) \<and>
    idx \<notin> fst ` set (rows (outbox_df s'))) \<and>
   (rows (outbox_df t) = [] \<and>
    (columns (outbox_df t) = outbox_columns \<or> columns (outbox_df t) = []) \<and>
    log_ok (message_logs t) \<and>
    add_to_outbox E L recipient message language msg_type t = (Inr (), t1) \<and>
    get_twilio_client E = Inr (Some c) \<and> from_number E = Inr from \<and>
    (\<forall>reqs req. \<exists>sid. provider E reqs req = Resource sid) \<and> 0 < m \<and>
    process_outbox E L m t1 = (Inr results2, t2)
    \<longrightarrow>
    rows (outbox_df t2) = [] \<and> (\<exists>info. results2 = [(0, True, info)]) \<and>
    to_dict_records (message_logs t2) =
      to_dict_records (message_logs t) @
        [[(''Recipient'', Str recipient), (''Message'', Str message),
          (''Language'', Str language), (''Date Sent'', Str (clock E (Suc (ticks t)))),
          (''Type'', Str msg_type), (''Status'', Str ''Sent'')]])"
proof (intro conjI impI)
  assume "outbox_ok (outbox_df s) \<and> log_ok (message_logs s) \<and>
    rows (outbox_df s) = pre @ (idx, row) # post \<and>
    attempts_of row = Inr a \<and> a < m \<and>
    outbox_loop E m pre [] s = (Inr res1, s1) \<and>
    dispatch E row (requests s1) = (Inr (True, info), reqs) \<and>
    process_outbox E L m s = (Inr results, s')"
  then have h: "outbox_ok (outbox_df s)" "log_ok (message_logs s)"
    "rows (outbox_df s) = pre @ (idx, row) # post" "attempts_of row = Inr a" "a < m"
    "outbox_loop E m pre [] s = (Inr res1, s1)"
    "dispatch E row (requests s1) = (Inr (True, info), reqs)"
    "process_outbox E L m s = (Inr results, s')"
    by simp_all
  note entry = outbox_entry_sent [OF h]
  from entry show "\<exists>res2 later.
        results = res1 @ (idx, True, info) # res2 \<and> length res1 = length pre \<and>
        to_dict_records (message_logs s') =
          to_dict_records (message_logs s1) @ sent_row row (clock E (ticks s1)) # later \<and>
        length later = length (filter (\<lambda>(i, ok, info). ok) res2)"
    by blast
  from entry show "map fst results = map fst (rows (outbox_df s))" by blast
  from entry show "idx \<notin> fst ` set (rows (outbox_df s'))" by blast
next
  assume "rows (outbox_df t) = [] \<and>
    (columns (outbox_df t) = outbox_columns \<or> columns (outbox_df t) = []) \<and>
    log_ok (message_logs t) \<and>
    add_to_outbox E L recipient message language msg_type t = (Inr (), t1) \<and>
    get_twilio_client E = Inr (Some c) \<and> from_number E = Inr from \<and>
    (\<forall>reqs req. \<exists>sid. provider E reqs req = Resource sid) \<and> 0 < m \<and>
    process_outbox E L m t1 = (Inr results2, t2)"
  then have h: "rows (outbox_df t) = []"
    "columns (outbox_df t) = outbox_columns \<or> columns (outbox_df t) = []"
    "log_ok (message_logs t)"
    "add_to_outbox E L recipient message language msg_type t = (Inr (), t1)"
    "get_twilio_client E = Inr (Some c)" "from_number E = Inr from"
    "\<forall>reqs req. \<exists>sid. provider E reqs req = Resource sid" "0 < m"
    "process_outbox E L m t1 = (Inr results2, t2)"
    by simp_all
  note drained = enqueue_then_drain [OF h]
  from drained show "rows (outbox_df t2) = []" by blast
  from drained show "\<exists>info. results2 = [(0, True, info)]" by blast
  from drained show "to_dict_records (message_logs t2) =
      to_dict_records (message_logs t) @
        [[(''Recipient'', Str recipient), (''Message'', Str message),
          (''Language'', Str language), (''Date Sent'', Str (clock E (Suc (ticks t)))),
          (''Type'', Str msg_type), (''Status'', Str ''Sent'')]]" by blast
qed


lemmas example_outbox_simps = example_sender_def example_offline_def
  example_state_def queued_row_def sent_row_def

lemma queued_state_add:
  "add_to_outbox example_sender records_lib ''+254700000001'' ''Habari'' ''Swahili'' ''sms''
       example_state = (Inr (), queued_state)"
  by (simp add: queued_state_def prod_eq_iff)
     (simp add: example_outbox_simps outbox_simps frame_simps Let_def)

lemma queued_state_tables:
  "outbox_df queued_state =
     \<lparr>columns = outbox_columns,
      rows = [(0, queued_row ''+254700000001'' ''Habari'' ''Swahili'' ''2024-01-01 10:00:00'' ''sms'')]\<rparr>"
  "message_logs queued_state = DataFrame log_columns"
  "requests queued_state = []"
  "ticks queued_state = 1"
  by (simp_all add: queued_state_def example_outbox_simps outbox_simps frame_simps example_simps
      Let_def)

lemma drained_state_result:
  "process_outbox example_sender records_lib 3 queued_state =
     (Inr [(0, True, ''SM1'')], drained_state)"
  by (simp add: drained_state_def prod_eq_iff)
     (simp add: queued_state_def example_outbox_simps outbox_simps frame_simps example_simps
      Let_def)

lemma drained_state_tables:
  "outbox_df drained_state = DataFrame outbox_columns"
  "to_dict_records (message_logs drained_state) =
     [[(''Recipient'', Str ''+254700000001''), (''Message'', Str ''Habari''),
       (''Language'', Str ''Swahili''), (''Date Sent'', Str ''2024-01-01 10:00:01''),
       (''Type'', Str ''sms''), (''Status'', Str ''Sent'')]]"
  by (simp_all add: drained_state_def queued_state_def example_outbox_simps outbox_simps
      frame_simps example_simps Let_def)


lemma example_sender_ready:
  "get_twilio_client example_sender = Inr (Some (Client (Some ''AC1'') (Some ''tok'')))"
  "from_number example_sender = Inr (Some ''+15550100'')"
  "provider example_sender reqs req = Resource (Some ''SM1'')"
  "clock example_sender n = ''2024-01-01 10:00:0'' @ str_nat n"
  by (simp_all add: example_sender_def example_simps)

theorem process_outbox_sent_witness:
  "outbox_ok (outbox_df queued_state) \<and> log_ok (message_logs queued_state) \<and>
   rows (outbox_df queued_state) =
     [] @ (0, queued_row ''+254700000001'' ''Habari'' ''Swahili'' ''2024-01-01 10:00:00'' ''sms'') # [] \<and>
   attempts_of (queued_row ''+254700000001'' ''Habari'' ''Swahili'' ''2024-01-01 10:00:00'' ''sms'')
     = Inr 0 \<and>
   outbox_loop example_sender 3 [] [] queued_state = (Inr [], queued_state) \<and>
   dispatch example_sender
       (queued_row ''+254700000001'' ''Habari'' ''Swahili'' ''2024-01-01 10:00:00'' ''sms'')
       (requests queued_state) =
     (Inr (True, ''SM1''),
      [messages_create (Str ''Habari'') (Some ''+15550100'') (Str ''+254700000001'')]) \<and>
   rows (outbox_df example_state) = [] \<and> columns (outbox_df example_state) = outbox_columns \<and>
   log_ok (message_logs example_state) \<and>
   add_to_outbox example_sender records_lib ''+254700000001'' ''Habari'' ''Swahili'' ''sms''
       example_state = (Inr (), queued_state) \<and>
   get_twilio_client example_sender = Inr (Some (Client (Some ''AC1'') (Some ''tok''))) \<and>
   from_number example_sender = Inr (Some ''+15550100'') \<and>
   (\<forall>reqs req. \<exists>sid. provider example_sender reqs req = Resource sid) \<and>
   process_outbox example_sender records_lib 3 queued_state =
     (Inr [(0, True, ''SM1'')], drained_state) \<and>
   rows (outbox_df drained_state) = [] \<and>
   to_dict_records (message_logs drained_state) =
     [[(''Recipient'', Str ''+254700000001''), (''Message'', Str ''Habari''),
       (''Language'', Str ''Swahili''), (''Date Sent'', Str ''2024-01-01 10:00:01''),
       (''Type'', Str ''sms''), (''Status'', Str ''Sent'')]]"
proof -
  have ok: "outbox_ok (outbox_df queued_state)" "log_ok (message_logs queued_state)"
    "log_ok (message_logs example_state)"
    by (simp_all add: queued_state_tables example_state_def outbox_ok_def log_ok_def wf_frame_def
        attempts_of_def queued_row_def row_get_def DataFrame_def outbox_columns_def
        log_columns_def)
  have att: "attempts_of
      (queued_row ''+254700000001'' ''Habari'' ''Swahili'' ''2024-01-01 10:00:00'' ''sms'') = Inr 0"
    by (simp add: attempts_of_def queued_row_def row_get_def)
  have disp: "dispatch example_sender
       (queued_row ''+254700000001'' ''Habari'' ''Swahili'' ''2024-01-01 10:00:00'' ''sms'')
       (requests queued_state) =
     (Inr (True, ''SM1''),
      [messages_create (Str ''Habari'') (Some ''+15550100'') (Str ''+254700000001'')])"
    by (simp add: dispatch_def safe_send_sms_def example_sender_ready queued_state_tables
        queued_row_def row_get_def getattr_sid_def)
  have empty: "rows (outbox_df example_state) = []"
    "columns (outbox_df example_state) = outbox_columns"
    by (simp_all add: example_state_def DataFrame_def)
  have prov: "\<forall>reqs req. \<exists>sid. provider example_sender reqs req = Resource sid"
    by (simp add: example_sender_ready)
  from process_outbox_sent
    [of queued_state "[]" 0
        "queued_row ''+254700000001'' ''Habari'' ''Swahili'' ''2024-01-01 10:00:00'' ''sms''"
        "[]" 0 3 example_sender "[]" queued_state "''SM1''"
        "[messages_create (Str ''Habari'') (Some ''+15550100'') (Str ''+254700000001'')]"
        records_lib "[(0, True, ''SM1'')]" drained_state
        example_state "''+254700000001''" "''Habari''" "''Swahili''" "''sms''" queued_state
        "Client (Some ''AC1'') (Some ''tok'')" "Some ''+15550100''" "[(0, True, ''SM1'')]"
        drained_state]
    ok att disp empty prov queued_state_add drained_state_result
  show ?thesis
    by (simp add: queued_state_tables example_sender_ready drained_state_tables DataFrame_def)
qed


lemma example_offline_ready:
  "get_twilio_client example_offline = Inr (Some (Client (Some ''AC1'') (Some ''tok'')))"
  "from_number example_offline = Inr (Some ''+15550100'')"
  "provider example_offline reqs req = Raises (Exception ''timeout'')"
  by (simp_all add: example_offline_def example_simps)

lemma stuck_drained_state_result:
  "process_outbox example_offline records_lib 3 stuck_state =
     (Inr [(0, False, ''max attempts reached''), (1, False, ''timeout'')], stuck_drained_state)"
  by (simp add: stuck_drained_state_def prod_eq_iff)
     (simp add: stuck_state_def example_outbox_simps outbox_simps frame_simps example_simps
      Let_def)

lemma stuck_drained_state_outbox:
  "outbox_df stuck_drained_state =
     \<lparr>columns = outbox_columns,
      rows = [(0, [(''Recipient'', Str ''+254700000001''), (''Message'', Str ''Habari''),
                   (''Language'', Str ''Swahili''), (''Date Created'', Str ''2024-01-01 09:00:00''),
                   (''Type'', Str ''sms''), (''Attempts'', Num 3)]),
              (1, [(''Recipient'', Str ''+254700000002''), (''Message'', Str ''Ber''),
                   (''Language'', Str ''Luo''), (''Date Created'', Str ''2024-01-01 09:30:00''),
                   (''Type'', Str ''voice''), (''Attempts'', Num 1)])]\<rparr>"
  "requests stuck_drained_state =
     [calls_create ''<Response><Say>Ber</Say></Response>'' (Some ''+15550100'')
        (Str ''+254700000002'')]"
  by (simp_all add: stuck_drained_state_def stuck_state_def example_outbox_simps outbox_simps
      frame_simps example_simps Let_def)

theorem process_outbox_exhausted_witness:
  "outbox_ok (outbox_df stuck_state) \<and>
   rows (outbox_df stuck_state) =
     [] @ (0, [(''Recipient'', Str ''+254700000001''), (''Message'', Str ''Habari''),
               (''Language'', Str ''Swahili''), (''Date Created'', Str ''2024-01-01 09:00:00''),
               (''Type'', Str ''sms''), (''Attempts'', Num 3)])
        # [(1, [(''Recipient'', Str ''+254700000002''), (''Message'', Str ''Ber''),
                (''Language'', Str ''Luo''), (''Date Created'', Str ''2024-01-01 09:30:00''),
                (''Type'', Str ''voice''), (''Attempts'', Num 0)])] \<and>
   attempts_of [(''Recipient'', Str ''+254700000001''), (''Message'', Str ''Habari''),
               (''Language'', Str ''Swahili''), (''Date Created'', Str ''2024-01-01 09:00:00''),
               (''Type'', Str ''sms''), (''Attempts'', Num 3)] = Inr 3 \<and>
   (3::int) \<le> 3 \<and>
   outbox_loop example_offline 3 [] [] stuck_state = (Inr [], stuck_state) \<and>
   process_outbox example_offline records_lib 3 stuck_state =
     (Inr [(0, False, ''max attempts reached''), (1, False, ''timeout'')], stuck_drained_state) \<and>
   rows_at 0 (outbox_df stuck_drained_state) =
     [(0, [(''Recipient'', Str ''+254700000001''), (''Message'', Str ''Habari''),
           (''Language'', Str ''Swahili''), (''Date Created'', Str ''2024-01-01 09:00:00''),
           (''Type'', Str ''sms''), (''Attempts'', Num 3)])] \<and>
   requests stuck_drained_state =
     [calls_create ''<Response><Say>Ber</Say></Response>'' (Some ''+15550100'')
        (Str ''+254700000002'')]"
proof -
  have ok: "outbox_ok (outbox_df stuck_state)"
    by (simp add: stuck_state_def example_state_def outbox_ok_def wf_frame_def
        attempts_of_def row_get_def outbox_columns_def)
  have rows: "rows (outbox_df stuck_state) =
     [] @ (0, [(''Recipient'', Str ''+254700000001''), (''Message'', Str ''Habari''),
               (''Language'', Str ''Swahili''), (''Date Created'', Str ''2024-01-01 09:00:00''),
               (''Type'', Str ''sms''), (''Attempts'', Num 3)])
        # [(1, [(''Recipient'', Str ''+254700000002''), (''Message'', Str ''Ber''),
                (''Language'', Str ''Luo''), (''Date Created'', Str ''2024-01-01 09:30:00''),
                (''Type'', Str ''voice''), (''Attempts'', Num 0)])]"
    by (simp add: stuck_state_def)
  have att: "attempts_of [(''Recipient'', Str ''+254700000001''), (''Message'', Str ''Habari''),
               (''Language'', Str ''Swahili''), (''Date Created'', Str ''2024-01-01 09:00:00''),
               (''Type'', Str ''sms''), (''Attempts'', Num 3)] = Inr 3"
    by (simp add: attempts_of_def row_get_def)
  have pre: "outbox_loop example_offline 3 [] [] stuck_state = (Inr [], stuck_state)"
    by simp
  from process_outbox_exhausted [OF ok rows att _ pre stuck_drained_state_result]
    ok rows att pre stuck_drained_state_result
  show ?thesis
    by (simp add: stuck_drained_state_outbox)
qed




section \<open>Properties of the reminders\<close>

lemma persist_all_tables:
  "persist_all L s = (out, s1) \<Longrightarrow>
   outbox_df s1 = outbox_df s \<and> message_logs s1 = message_logs s \<and>
   reminders_df s1 = reminders_df s \<and> partners_df s1 = partners_df s \<and>
   feedback_df s1 = feedback_df s \<and> requests s1 = requests s \<and> ticks s1 = ticks s"
  by (auto simp: persist_all_def split: prod.splits sum.splits dest!: save_table_tables)

lemma process_row_reminders:
  "process_row E m ir s = (out, s1) \<Longrightarrow> reminders_df s1 = reminders_df s"
  by (auto simp: process_row_def Let_def now_def
      split: sum.splits if_splits prod.splits)

lemma outbox_loop_reminders:
  "outbox_loop E m xs res s = (out, s1) \<Longrightarrow> reminders_df s1 = reminders_df s"
proof (induction xs arbitrary: res s)
  case Nil
  then show ?case by simp
next
  case (Cons ir xs)
  obtain r s2 where step: "process_row E m ir s = (r, s2)"
    by (cases "process_row E m ir s")
  note keep = process_row_reminders [OF step]
  show ?case
  proof (cases r)
    case (Inl e)
    with Cons.prems step keep show ?thesis by simp
  next
    case (Inr a)
    with Cons.prems step have "outbox_loop E m xs (res @ [a]) s2 = (out, s1)" by simp
    from Cons.IH [OF this] keep show ?thesis by simp
  qed
qed

lemma process_outbox_reminders:
  "process_outbox E L m s = (out, s1) \<Longrightarrow> reminders_df s1 = reminders_df s"
  by (auto simp: process_outbox_def split: if_splits prod.splits sum.splits
      dest!: save_table_tables outbox_loop_reminders)

lemma send_now_reminders:
  "send_now E L recipient msg_text msg_type msg_lang s = (out, s1) \<Longrightarrow>
   reminders_df s1 = reminders_df s"
  by (auto simp: send_now_def Let_def now_def
      split: if_splits prod.splits sum.splits
      dest!: save_table_tables add_to_outbox_tables(5))

lemma add_partner_reminders:
  "add_partner L name role langs contact campaign s = (out, s1) \<Longrightarrow>
   reminders_df s1 = reminders_df s"
  by (auto simp: add_partner_def Let_def split: if_splits dest!: save_table_tables)

lemma submit_feedback_reminders:
  "submit_feedback E L fname fmsg flang s = (out, s1) \<Longrightarrow> reminders_df s1 = reminders_df s"
  by (auto simp: submit_feedback_def Let_def now_def
      split: if_splits prod.splits sum.splits dest!: save_table_tables)


lemma map_of_tabulate:
  "map_of (map (\<lambda>k. (k, f k)) ks) c = (if c \<in> set ks then Some (f c) else None)"
  by (induction ks) auto

lemma row_get_reindex: "c \<in> set cs \<Longrightarrow> row_get (reindex cs r) c d = row_get r c NaN"
  by (simp add: reindex_def row_get_def [of "map _ _"] map_of_tabulate)

lemma map_snd_fun_enumerate: "map (\<lambda>p. f (snd p)) (enumerate n xs) = map f xs"
  by (induction xs arbitrary: n) auto

lemma statuses_concat:
  assumes "''Status'' \<in> fst ` set new"
  shows "statuses (concat_ignore_index df (DataFrame_records [new])) =
         statuses df @ [row_get new ''Status'' NaN]"
proof -
  let ?cs1 = "first_seen [] (map fst new)"
  let ?cs = "columns df @ filter (\<lambda>c. c \<notin> set (columns df)) ?cs1"
  from assms have in1: "''Status'' \<in> set ?cs1"
    by (simp add: set_first_seen)
  then have in2: "''Status'' \<in> set ?cs" by auto
  have new_df: "DataFrame_records [new] = \<lparr>columns = ?cs1, rows = [(0, reindex ?cs1 new)]\<rparr>"
    by (simp add: DataFrame_records_def Let_def)
  have "statuses (concat_ignore_index df (DataFrame_records [new])) =
        map (\<lambda>p. row_get (snd p) ''Status'' NaN)
          (enumerate 0 (map (reindex ?cs) (map snd (rows df) @ [reindex ?cs1 new])))"
    by (simp add: statuses_def concat_ignore_index_def new_df Let_def case_prod_unfold comp_def)
  also have "\<dots> = map (\<lambda>r. row_get r ''Status'' NaN)
          (map (reindex ?cs) (map snd (rows df) @ [reindex ?cs1 new]))"
    by (rule map_snd_fun_enumerate)
  also have "\<dots> = map (\<lambda>r. row_get (reindex ?cs r) ''Status'' NaN)
          (map snd (rows df) @ [reindex ?cs1 new])"
    by (simp add: comp_def)
  also have "\<dots> = map (\<lambda>r. row_get r ''Status'' NaN) (map snd (rows df) @ [reindex ?cs1 new])"
    using in2 by (simp only: row_get_reindex)
  also have "\<dots> = statuses df @ [row_get new ''Status'' NaN]"
    using in1 by (simp add: statuses_def row_get_reindex case_prod_unfold comp_def)
  finally show ?thesis .
qed

lemma row_get_append_missing: "row_get (r @ [(c, NaN)]) c NaN = row_get r c NaN"
  by (simp add: row_get_def map_add_def split: option.splits)

lemma row_get_update: "row_get (AList.update c v r) c d = v"
  by (simp add: row_get_def update_conv')

lemma statuses_loc_set:
  "statuses (loc_set df chosen ''Status'' v) =
   map (\<lambda>(i, r). if chosen r then v else row_get r ''Status'' NaN) (rows df)"
  by (auto simp: statuses_def loc_set_def row_get_update row_get_append_missing)

lemma add_reminder_statuses:
  assumes "add_reminder L task due_date assigned_to s = (out, s1)"
  shows "statuses (reminders_df s1) = statuses (reminders_df s) \<or>
         statuses (reminders_df s1) = statuses (reminders_df s) @ [Str ''Pending'']"
proof (cases "task = [] \<or> assigned_to = []")
  case True
  with assms show ?thesis by (auto simp: add_reminder_def)
next
  case False
  let ?new = "[(''Task'', Str task), (''Due Date'', Str due_date),
               (''Assigned To'', Str assigned_to), (''Status'', Str ''Pending'')]"
  from False assms have "reminders_df s1 =
      concat_ignore_index (reminders_df s) (DataFrame_records [?new])"
    by (auto simp: add_reminder_def Let_def dest!: save_table_tables)
  then show ?thesis
    by (simp add: statuses_concat row_get_def)
qed

lemma mark_completed_statuses:
  assumes "mark_completed L sel s = (out, s1)"
  shows "statuses (reminders_df s1) = statuses (reminders_df s) \<or>
         statuses (reminders_df s1) =
           map (\<lambda>(i, r). if py_eq (row_get r ''Task'' NaN) sel then Str ''Completed''
                          else row_get r ''Status'' NaN) (rows (reminders_df s))"
  using assms
  by (auto simp: mark_completed_def Let_def statuses_loc_set
      split: if_splits sum.splits dest!: save_table_tables)

lemma mark_completed_positions:
  assumes "mark_completed L sel s = (out, s1)"
  shows "length (statuses (reminders_df s1)) = length (statuses (reminders_df s)) \<and>
         (\<forall>k < length (statuses (reminders_df s)).
            statuses (reminders_df s1) ! k = statuses (reminders_df s) ! k \<or>
            statuses (reminders_df s1) ! k = Str ''Completed'')"
proof -
  from mark_completed_statuses [OF assms]
  consider "statuses (reminders_df s1) = statuses (reminders_df s)"
    | "statuses (reminders_df s1) =
         map (\<lambda>(i, r). if py_eq (row_get r ''Task'' NaN) sel then Str ''Completed''
                        else row_get r ''Status'' NaN) (rows (reminders_df s))"
    by blast
  then show ?thesis
  proof cases
    case 1
    then show ?thesis by simp
  next
    case 2
    then show ?thesis
      by (simp add: statuses_def [of "reminders_df s"] case_prod_unfold)
  qed
qed

lemma handle_reminders:
  assumes "handle E L ev s = (out, s1)"
    and "\<forall>t d a. ev \<noteq> Add_Reminder t d a" and "\<forall>sel. ev \<noteq> Mark_Completed sel"
  shows "reminders_df s1 = reminders_df s"
  using assms
  by (cases ev)
     (auto simp: handle_def process_outbox_button_def save_all_def show_page_def get_answer_def
      split: prod.splits sum.splits if_splits
      dest: send_now_reminders add_partner_reminders submit_feedback_reminders
        process_outbox_reminders persist_all_tables)

lemma run_handle:
  assumes "run E L ev s = (out, s1)"
  shows "\<exists>out2 s2. handle E L ev s = (out2, s2) \<and> reminders_df s1 = reminders_df s2 \<and>
           partners_df s1 = partners_df s2 \<and> message_logs s1 = message_logs s2 \<and>
           feedback_df s1 = feedback_df s2 \<and> outbox_df s1 = outbox_df s2"
  using assms
  by (auto simp: run_def split: prod.splits sum.splits dest!: persist_all_tables)

text \<open>
  C9.  Across one run of the script, from any state (reachable or not) and for any event:
  the status column of the reminders keeps its length or grows; a status that was there
  before is unchanged, unless the event is "Mark Completed" and the new status is
  "Completed"; a status that is new comes from "Add Reminder" and is "Pending"; and an
  event that is neither of the two leaves the whole reminders table as it was.
\<close>

theorem reminder_status_transitions:
  assumes "run E L ev s = (out, s1)"
  shows "length (statuses (reminders_df s)) \<le> length (statuses (reminders_df s1)) \<and>
         (\<forall>k < length (statuses (reminders_df s)).
            statuses (reminders_df s1) ! k = statuses (reminders_df s) ! k \<or>
            (\<exists>sel. ev = Mark_Completed sel) \<and>
              statuses (reminders_df s1) ! k = Str ''Completed'') \<and>
         (\<forall>k. length (statuses (reminders_df s)) \<le> k \<longrightarrow>
              k < length (statuses (reminders_df s1)) \<longrightarrow>
              (\<exists>task due assigned. ev = Add_Reminder task due assigned) \<and>
              statuses (reminders_df s1) ! k = Str ''Pending'') \<and>
         ((\<forall>task due assigned. ev \<noteq> Add_Reminder task due assigned) \<and>
          (\<forall>sel. ev \<noteq> Mark_Completed sel) \<longrightarrow> reminders_df s1 = reminders_df s)"
proof -
  from run_handle [OF assms] obtain out2 s2 where
    h: "handle E L ev s = (out2, s2)" and same: "reminders_df s1 = reminders_df s2"
    by blast
  consider (add) task due assigned where "ev = Add_Reminder task due assigned"
    | (mark) sel where "ev = Mark_Completed sel"
    | (other) "\<forall>t d a. ev \<noteq> Add_Reminder t d a" "\<forall>sel. ev \<noteq> Mark_Completed sel"
    by blast
  then show ?thesis
  proof cases
    case add
    with h have "add_reminder L task due assigned s = (out2, s2)"
      by (simp add: handle_def)
    from add_reminder_statuses [OF this] add same show ?thesis
      by (auto simp: nth_append)
  next
    case mark
    with h have "mark_completed L sel s = (out2, s2)"
      by (simp add: handle_def)
    from mark_completed_positions [OF this] mark same show ?thesis
      by auto
  next
    case other
    from handle_reminders [OF h other] same other show ?thesis by simp
  qed
qed


lemma loc_set_present:
  assumes "c \<in> set (columns df)"
  shows "columns (loc_set df chosen c v) = columns df"
    and "rows (loc_set df chosen c v) =
         map (\<lambda>(i, r). (i, if chosen r then AList.update c v r else r)) (rows df)"
  using assms by (auto simp: loc_set_def)

text \<open>
  C10.  When "Mark Completed" runs with a selected task that is pending, the reminders
  table keeps its columns, and its rows are the old rows with Status set to "Completed"
  in every row whose Task equals the selected one: each row keeps its label and every
  cell other than Status.  The other four tables are unchanged.
\<close>

theorem mark_completed_effect:
  assumes pend: "pending_tasks (reminders_df s) = Inr pending" and sel: "sel \<in> set pending"
    and run: "run E L (Mark_Completed sel) s = (out, s1)"
  shows "columns (reminders_df s1) = columns (reminders_df s) \<and>
         rows (reminders_df s1) =
           map (\<lambda>(i, r). (i, if py_eq (row_get r ''Task'' NaN) sel
                              then AList.update ''Status'' (Str ''Completed'') r else r))
             (rows (reminders_df s)) \<and>
         (\<forall>k < length (rows (reminders_df s)).
            fst (rows (reminders_df s1) ! k) = fst (rows (reminders_df s) ! k) \<and>
            row_get (snd (rows (reminders_df s1) ! k)) ''Status'' NaN =
              (if py_eq (row_get (snd (rows (reminders_df s) ! k)) ''Task'' NaN) sel
               then Str ''Completed''
               else row_get (snd (rows (reminders_df s) ! k)) ''Status'' NaN) \<and>
            (\<forall>c. c \<noteq> ''Status'' \<longrightarrow>
               map_of (snd (rows (reminders_df s1) ! k)) c =
               map_of (snd (rows (reminders_df s) ! k)) c)) \<and>
         partners_df s1 = partners_df s \<and> message_logs s1 = message_logs s \<and>
         feedback_df s1 = feedback_df s \<and> outbox_df s1 = outbox_df s"
proof -
  from pend have cols: "''Status'' \<in> set (columns (reminders_df s))"
    by (auto simp: pending_tasks_def split: if_splits)
  from pend sel have "rows (reminders_df s) \<noteq> []"
    by (auto simp: pending_tasks_def split: if_splits)
  with cols have ne: "\<not> empty_df (reminders_df s)"
    by (auto simp: empty_df_def)
  from run_handle [OF run] obtain out2 s2 where
    h: "mark_completed L sel s = (out2, s2)"
    and same: "reminders_df s1 = reminders_df s2" "partners_df s1 = partners_df s2"
      "message_logs s1 = message_logs s2" "feedback_df s1 = feedback_df s2"
      "outbox_df s1 = outbox_df s2"
    by (auto simp: handle_def)
  define f :: "nat \<times> row \<Rightarrow> nat \<times> row" where
    "f = (\<lambda>(i, r). (i, if py_eq (row_get r ''Task'' NaN) sel
                         then AList.update ''Status'' (Str ''Completed'') r else r))"
  from sel have "pending \<noteq> []" by auto
  with h ne pend sel have s2: "columns (reminders_df s2) = columns (reminders_df s)"
      "rows (reminders_df s2) = map f (rows (reminders_df s))"
      "partners_df s2 = partners_df s" "message_logs s2 = message_logs s"
      "feedback_df s2 = feedback_df s" "outbox_df s2 = outbox_df s"
    by (auto simp: mark_completed_def Let_def loc_set_present [OF cols] f_def
        dest!: save_table_tables)
  have cells: "fst (f ir) = fst ir \<and>
      row_get (snd (f ir)) ''Status'' NaN =
        (if py_eq (row_get (snd ir) ''Task'' NaN) sel then Str ''Completed''
         else row_get (snd ir) ''Status'' NaN) \<and>
      (\<forall>c. c \<noteq> ''Status'' \<longrightarrow> map_of (snd (f ir)) c = map_of (snd ir) c)" for ir
    by (cases ir) (simp add: f_def row_get_update update_conv')
  have each: "\<forall>k < length (rows (reminders_df s)).
            fst (rows (reminders_df s1) ! k) = fst (rows (reminders_df s) ! k) \<and>
            row_get (snd (rows (reminders_df s1) ! k)) ''Status'' NaN =
              (if py_eq (row_get (snd (rows (reminders_df s) ! k)) ''Task'' NaN) sel
               then Str ''Completed''
               else row_get (snd (rows (reminders_df s) ! k)) ''Status'' NaN) \<and>
            (\<forall>c. c \<noteq> ''Status'' \<longrightarrow>
               map_of (snd (rows (reminders_df s1) ! k)) c =
               map_of (snd (rows (reminders_df s) ! k)) c)"
  proof (intro allI impI)
    fix k assume "k < length (rows (reminders_df s))"
    then have "rows (reminders_df s1) ! k = f (rows (reminders_df s) ! k)"
      by (simp add: same s2)
    with cells [of "rows (reminders_df s) ! k"] show
      "fst (rows (reminders_df s1) ! k) = fst (rows (reminders_df s) ! k) \<and>
       row_get (snd (rows (reminders_df s1) ! k)) ''Status'' NaN =
         (if py_eq (row_get (snd (rows (reminders_df s) ! k)) ''Task'' NaN) sel
          then Str ''Completed''
          else row_get (snd (rows (reminders_df s) ! k)) ''Status'' NaN) \<and>
       (\<forall>c. c \<noteq> ''Status'' \<longrightarrow>
          map_of (snd (rows (reminders_df s1) ! k)) c =
          map_of (snd (rows (reminders_df s) ! k)) c)"
      by simp
  qed
  have "rows (reminders_df s1) =
           map (\<lambda>(i, r). (i, if py_eq (row_get r ''Task'' NaN) sel
                              then AList.update ''Status'' (Str ''Completed'') r else r))
             (rows (reminders_df s))"
    by (simp add: same s2 f_def)
  with each same s2 show ?thesis by simp
qed


lemmas page_simps = run_def handle_def add_reminder_def mark_completed_def persist_all_def
  pending_tasks_def loc_set_def py_eq_def save_table_def save_df_to_file_def records_lib_def
  PARTNERS_FILE_def MESSAGES_FILE_def FEEDBACK_FILE_def REMINDERS_FILE_def OUTBOX_FILE_def

lemma planned_state_result:
  "run example_offline records_lib (Add_Reminder ''Call clinic'' ''2024-02-01'' ''Achieng'')
     example_state = (Inr (), planned_state)"
  by (simp add: planned_state_def prod_eq_iff)
     (simp add: example_state_def page_simps frame_simps Let_def)

lemma planned_state_reminders:
  "reminders_df example_state = DataFrame [''Task'', ''Due Date'', ''Assigned To'', ''Status'']"
  "reminders_df planned_state =
     \<lparr>columns = [''Task'', ''Due Date'', ''Assigned To'', ''Status''],
      rows = [(0, [(''Task'', Str ''Call clinic''), (''Due Date'', Str ''2024-02-01''),
                   (''Assigned To'', Str ''Achieng''), (''Status'', Str ''Pending'')])]\<rparr>"
  by (simp_all add: planned_state_def example_state_def page_simps frame_simps Let_def)

lemma planned_twice_state_reminders:
  "reminders_df planned_twice_state =
     \<lparr>columns = [''Task'', ''Due Date'', ''Assigned To'', ''Status''],
      rows = [(0, [(''Task'', Str ''Call clinic''), (''Due Date'', Str ''2024-02-01''),
                   (''Assigned To'', Str ''Achieng''), (''Status'', Str ''Pending'')]),
              (1, [(''Task'', Str ''Print posters''), (''Due Date'', Str ''2024-02-15''),
                   (''Assigned To'', Str ''Achieng''), (''Status'', Str ''Pending'')]),
              (2, [(''Task'', Str ''Call clinic''), (''Due Date'', Str ''2024-03-01''),
                   (''Assigned To'', Str ''Otieno''), (''Status'', Str ''Pending'')])]\<rparr>"
  by (simp add: planned_twice_state_def planned_state_def example_state_def page_simps
      frame_simps Let_def)

lemma completed_state_result:
  "run example_offline records_lib (Mark_Completed (Str ''Call clinic'')) planned_twice_state =
     (Inr (), completed_state)"
  by (simp add: completed_state_def prod_eq_iff)
     (simp add: planned_twice_state_def planned_state_def example_state_def page_simps
      frame_simps Let_def)

lemma completed_state_reminders:
  "reminders_df completed_state =
     \<lparr>columns = [''Task'', ''Due Date'', ''Assigned To'', ''Status''],
      rows = [(0, [(''Task'', Str ''Call clinic''), (''Due Date'', Str ''2024-02-01''),
                   (''Assigned To'', Str ''Achieng''), (''Status'', Str ''Completed'')]),
              (1, [(''Task'', Str ''Print posters''), (''Due Date'', Str ''2024-02-15''),
                   (''Assigned To'', Str ''Achieng''), (''Status'', Str ''Pending'')]),
              (2, [(''Task'', Str ''Call clinic''), (''Due Date'', Str ''2024-03-01''),
                   (''Assigned To'', Str ''Otieno''), (''Status'', Str ''Completed'')])]\<rparr>"
  by (simp add: completed_state_def planned_twice_state_def planned_state_def
      example_state_def page_simps frame_simps Let_def)

theorem reminder_status_transitions_witness:
  "run example_offline records_lib (Add_Reminder ''Call clinic'' ''2024-02-01'' ''Achieng'')
     example_state = (Inr (), planned_state) \<and>
   statuses (reminders_df example_state) = [] \<and>
   statuses (reminders_df planned_state) = [Str ''Pending''] \<and>
   run example_offline records_lib (Mark_Completed (Str ''Call clinic'')) planned_twice_state =
     (Inr (), completed_state) \<and>
   statuses (reminders_df planned_twice_state) =
     [Str ''Pending'', Str ''Pending'', Str ''Pending''] \<and>
   statuses (reminders_df completed_state) =
     [Str ''Completed'', Str ''Pending'', Str ''Completed'']"
  using
    reminder_status_transitions [OF planned_state_result]
    reminder_status_transitions [OF completed_state_result]
    planned_state_result completed_state_result
  by (simp add: planned_state_reminders planned_twice_state_reminders completed_state_reminders
      statuses_def row_get_def DataFrame_def)

theorem mark_completed_effect_witness:
  "pending_tasks (reminders_df planned_twice_state) =
     Inr [Str ''Call clinic'', Str ''Print posters'', Str ''Call clinic''] \<and>
   Str ''Call clinic'' \<in> set [Str ''Call clinic'', Str ''Print posters'', Str ''Call clinic''] \<and>
   run example_offline records_lib (Mark_Completed (Str ''Call clinic'')) planned_twice_state =
     (Inr (), completed_state) \<and>
   rows (reminders_df completed_state) =
     [(0, [(''Task'', Str ''Call clinic''), (''Due Date'', Str ''2024-02-01''),
           (''Assigned To'', Str ''Achieng''), (''Status'', Str ''Completed'')]),
      (1, [(''Task'', Str ''Print posters''), (''Due Date'', Str ''2024-02-15''),
           (''Assigned To'', Str ''Achieng''), (''Status'', Str ''Pending'')]),
      (2, [(''Task'', Str ''Call clinic''), (''Due Date'', Str ''2024-03-01''),
           (''Assigned To'', Str ''Otieno''), (''Status'', Str ''Completed'')])] \<and>
   outbox_df completed_state = outbox_df planned_twice_state"
proof -
  have pend: "pending_tasks (reminders_df planned_twice_state) =
     Inr [Str ''Call clinic'', Str ''Print posters'', Str ''Call clinic'']"
    by (simp add: planned_twice_state_reminders pending_tasks_def py_eq_def row_get_def)
  have sel: "Str ''Call clinic'' \<in>
      set [Str ''Call clinic'', Str ''Print posters'', Str ''Call clinic'']"
    by simp
  from mark_completed_effect [OF pend sel completed_state_result] pend completed_state_result
  show ?thesis
    by (simp add: completed_state_reminders)
qed

text \<open>The example session is the one that the first run loads when no file exists.\<close>

lemma startup_no_files: "startup records_lib Map.empty = Inr example_state"
  by (simp add: startup_def load_df_from_file_def example_state_def DataFrame_def
      outbox_columns_def log_columns_def)

section \<open>The outbox stays well formed\<close>

text \<open>
  Queueing keeps the outbox well formed, also when it starts from the table without
  columns that a failed load leaves; so does a drain (\<open>process_outbox_ok\<close>).
\<close>

lemma concat_new_record:
  assumes wf: "wf_frame df" and cols: "columns df = cs \<or> df = DataFrame []"
    and keys: "map fst new = cs" and d: "distinct cs"
  shows "concat_ignore_index df (DataFrame_records [new]) =
           \<lparr>columns = cs, rows = enumerate 0 (to_dict_records df @ [new])\<rparr>"
proof -
  have fs: "first_seen [] cs = cs"
    using first_seen_distinct [of "[]" cs] d by simp
  have own: "reindex cs new = new"
    using reindex_own_keys [of new] keys d by simp
  have new_df: "DataFrame_records [new] = \<lparr>columns = cs, rows = [(0, new)]\<rparr>"
    by (simp add: DataFrame_records_def Let_def keys fs own)
  from cols show ?thesis
  proof
    assume c: "columns df = cs"
    with wf have "list_all (\<lambda>r. map fst r = cs) (to_dict_records df @ [new])"
      using wf_frame_records [of df] by (simp add: keys)
    then have "map (reindex cs) (to_dict_records df @ [new]) = to_dict_records df @ [new]"
      by (intro map_reindex_same_keys d)
    moreover have "map (\<lambda>(i, r). reindex cs r) (rows df @ [(0, new)])
          = map (reindex cs) (to_dict_records df @ [new])"
      by (simp add: to_dict_records_def case_prod_unfold)
    ultimately show ?thesis
      by (simp add: concat_ignore_index_def new_df Let_def c)
  next
    assume "df = DataFrame []"
    then show ?thesis
      by (simp add: concat_ignore_index_def new_df DataFrame_def to_dict_records_def own)
  qed
qed

lemma map_fst_enumerate_distinct: "distinct (map fst (enumerate n xs))"
  by (simp add: enumerate_eq_zip)

lemma add_to_outbox_ok:
  assumes "outbox_ok (outbox_df s) \<or> outbox_df s = DataFrame []"
    and "add_to_outbox E L rc msg lang ty s = (out, s1)"
  shows "outbox_ok (outbox_df s1)"
proof -
  let ?new = "queued_row rc msg lang (clock E (ticks s)) ty"
  have keys: "map fst ?new = outbox_columns"
    by (simp add: queued_row_def outbox_columns_def)
  have d: "distinct outbox_columns" by (simp add: outbox_columns_def)
  have att: "\<not> isl (attempts_of ?new)"
    by (simp add: attempts_of_def queued_row_def row_get_def)
  from assms(1) have wf: "wf_frame (outbox_df s)"
    and cols: "columns (outbox_df s) = outbox_columns \<or> outbox_df s = DataFrame []"
    and old: "list_all (\<lambda>r. map fst r = outbox_columns \<and> \<not> isl (attempts_of r))
               (to_dict_records (outbox_df s))"
    by (auto simp: outbox_ok_def wf_frame_def DataFrame_def to_dict_records_def list_all_iff)
  have "outbox_df s1 =
        \<lparr>columns = outbox_columns,
         rows = enumerate 0 (to_dict_records (outbox_df s) @ [?new])\<rparr>"
    by (simp add: add_to_outbox_tables(1) [OF assms(2)] concat_new_record [OF wf cols keys d])
  with old keys att d show ?thesis
    by (auto simp: outbox_ok_def wf_frame_def list_all_iff map_fst_enumerate_distinct
        dest!: enumerate_snd_in)
qed

end
